theory Spec2Isabelle
  imports Main
begin

section \<open>JavaScript strings\<close>

text \<open>
  A JavaScript string is a sequence of UTF-16 code units; \<open>length\<close>, \<open>charAt\<close>, \<open>slice\<close> and
  regular expressions without the \<open>u\<close> flag all work on code units. The sources contain
  Korean text and test for the Hangul syllable range, so a string is a list of code units
  (natural numbers below 65536) rather than a list of 8-bit characters. ASCII literals of
  the sources are written \<open>js ''...''\<close>.
\<close>

type_synonym jsstring = "nat list"

abbreviation js :: "string \<Rightarrow> jsstring" where
  "js s \<equiv> map of_char s"

text \<open>
  The set matched by \<open>\s\<close> and stripped by \<open>trim()\<close>: the ECMAScript WhiteSpace and
  LineTerminator code points (TAB, LF, VT, FF, CR, SP, NBSP, U+1680, U+2000..U+200A,
  U+2028, U+2029, U+202F, U+205F, U+3000, U+FEFF).
\<close>

definition isWhiteSpace :: "nat \<Rightarrow> bool" where
  "isWhiteSpace c \<longleftrightarrow>
     (9 \<le> c \<and> c \<le> 13) \<or> c = 32 \<or> c = 160 \<or> c = 5760 \<or> (8192 \<le> c \<and> c \<le> 8202) \<or>
     c = 8232 \<or> c = 8233 \<or> c = 8239 \<or> c = 8287 \<or> c = 12288 \<or> c = 65279"

text \<open>The characters the regular-expression dot does not match.\<close>

definition isLineTerminator :: "nat \<Rightarrow> bool" where
  "isLineTerminator c \<longleftrightarrow> c = 10 \<or> c = 13 \<or> c = 8232 \<or> c = 8233"

definition trim :: "jsstring \<Rightarrow> jsstring" where
  "trim s = rev (dropWhile isWhiteSpace (rev (dropWhile isWhiteSpace s)))"

definition startsWith :: "jsstring \<Rightarrow> jsstring \<Rightarrow> bool" where
  "startsWith s p \<longleftrightarrow> take (length p) s = p"

text \<open>\<open>s.includes(p)\<close>: \<open>p\<close> occurs in \<open>s\<close> as a contiguous substring.\<close>

fun includesStr :: "jsstring \<Rightarrow> jsstring \<Rightarrow> bool" where
  "includesStr [] p = (p = [])"
| "includesStr (c # cs) p = (startsWith (c # cs) p \<or> includesStr cs p)"

text \<open>\<open>s.split(sep)\<close> for a one-character separator; the empty string gives \<open>['''']\<close>.\<close>

fun splitChar :: "nat \<Rightarrow> jsstring \<Rightarrow> jsstring list" where
  "splitChar sep [] = [[]]"
| "splitChar sep (c # cs) =
     (if c = sep then [] # splitChar sep cs
      else (case splitChar sep cs of [] \<Rightarrow> [[c]] | t # ts \<Rightarrow> (c # t) # ts))"

text \<open>
  \<open>s.split(/\s+/)\<close>: the pieces between maximal runs of white space. A leading or a trailing
  run leaves an empty first or last piece, and the empty string gives \<open>['''']\<close>.
\<close>

fun splitWhiteSpace :: "jsstring \<Rightarrow> jsstring list" where
  "splitWhiteSpace [] = [[]]"
| "splitWhiteSpace (c # cs) =
     (if isWhiteSpace c then
        (case cs of
           [] \<Rightarrow> [[], []]
         | d # ds \<Rightarrow> if isWhiteSpace d then splitWhiteSpace cs else [] # splitWhiteSpace cs)
      else (case splitWhiteSpace cs of [] \<Rightarrow> [[c]] | t # ts \<Rightarrow> (c # t) # ts))"

text \<open>\<open>xs.join(sep)\<close>.\<close>

fun join :: "jsstring \<Rightarrow> jsstring list \<Rightarrow> jsstring" where
  "join sep [] = []"
| "join sep [x] = x"
| "join sep (x # y # ys) = x @ sep @ join sep (y # ys)"

text \<open>\<open>String(n)\<close> and \<open>n.toString()\<close> for a non-negative integer: its decimal digits.\<close>

fun toString :: "nat \<Rightarrow> jsstring" where
  "toString n = (if n < 10 then [48 + n] else toString (n div 10) @ [48 + n mod 10])"

declare toString.simps [simp del]

definition padStart :: "jsstring \<Rightarrow> nat \<Rightarrow> nat \<Rightarrow> jsstring" where
  "padStart s n c = replicate (n - length s) c @ s"

text \<open>
  \<open>toLowerCase\<close> and \<open>toUpperCase\<close> on ASCII letters. \<open>suggestKey\<close> applies them to words
  that have been stripped to ASCII letters, digits and Hangul syllables, where the
  Unicode case mappings change exactly the ASCII letters. Case mapping of other
  characters is not modelled.
\<close>

definition toLowerCase :: "jsstring \<Rightarrow> jsstring" where
  "toLowerCase s = map (\<lambda>c. if 65 \<le> c \<and> c \<le> 90 then c + 32 else c) s"

definition toUpperCase :: "jsstring \<Rightarrow> jsstring" where
  "toUpperCase s = map (\<lambda>c. if 97 \<le> c \<and> c \<le> 122 then c - 32 else c) s"

section \<open>Syntax trees\<close>

text \<open>
  The parser is an external collaborator (\<open>@babel/parser\<close> with the plugins \<open>jsx\<close>,
  \<open>typescript\<close> and \<open>decorators-legacy\<close>). The model keeps the node types the checkers
  test for and the fields they read. A string literal of the program text is a
  \<open>StringLiteral\<close> node and a number a \<open>NumericLiteral\<close> node. The ESTree type \<open>Literal\<close>,
  which some of the checkers test for, is what the parser gives with its \<open>estree\<close> plugin
  only, and the checkers do not enable it; it is kept as a constructor of its own, so
  that each test of the sources can be written as it stands. \<open>loc\<close> is
  \<open>node.loc?.start\<close> as a pair of line and column.
\<close>

type_synonym pos = "nat \<times> nat"

datatype litvalue =
    LString jsstring
  | LNumber jsstring  \<comment> \<open>a number, kept as the text \<open>String(value)\<close> gives\<close>
  | LOther jsstring  \<comment> \<open>a boolean, null or a regular expression, kept likewise\<close>

datatype node =
    Identifier (loc: "pos option") jsstring
  | Literal (loc: "pos option") litvalue
  | StringLiteral (loc: "pos option") jsstring
  | NumericLiteral (loc: "pos option") jsstring
  | BooleanLiteral (loc: "pos option") bool
  | BigIntLiteral (loc: "pos option") jsstring
  | TemplateLiteral (loc: "pos option") "jsstring list" "node list"
      \<comment> \<open>\<open>quasis\<close> (each quasi as its \<open>value.raw\<close>) and \<open>expressions\<close>\<close>
  | JSXText (loc: "pos option") jsstring
  | JSXExpressionContainer (loc: "pos option") node
  | ObjectExpression (loc: "pos option") "node list"
  | ObjectProperty (loc: "pos option") node node  \<comment> \<open>\<open>key\<close> and \<open>value\<close>\<close>
  | SpreadElement (loc: "pos option") node
  | ArrayExpression (loc: "pos option") "node option list"  \<comment> \<open>a hole is \<open>null\<close>\<close>
  | MemberExpression (loc: "pos option") node node  \<comment> \<open>\<open>object\<close> and \<open>property\<close>\<close>
  | CallExpression (loc: "pos option") node "node list"  \<comment> \<open>\<open>callee\<close> and \<open>arguments\<close>\<close>
  | Other (loc: "pos option") jsstring
      \<comment> \<open>any other node type, by name; none of them has a \<open>value\<close> field\<close>

text \<open>\<open>a.loc?.start.line || b.loc?.start.line || 0\<close>, and the same for columns.\<close>

definition lineOf :: "pos option \<Rightarrow> nat" where
  "lineOf l = (case l of None \<Rightarrow> 0 | Some p \<Rightarrow> fst p)"

definition columnOf :: "pos option \<Rightarrow> nat" where
  "columnOf l = (case l of None \<Rightarrow> 0 | Some p \<Rightarrow> snd p)"

definition orElse :: "nat \<Rightarrow> nat \<Rightarrow> nat" where
  "orElse a b = (if a \<noteq> 0 then a else b)"

text \<open>
  A markup element, as far as the markup checkers read it: the name of its opening
  element, its attributes and its direct children. The name of an attribute is \<open>None\<close>
  when it is namespaced (\<open>attr.name.name\<close> is then an object and no string). A child that
  is itself an element, a fragment or a spread child is an \<open>Other\<close> node.
\<close>

datatype jsxName = JSXIdentifier jsstring | JSXMemberExpression | JSXNamespacedName

datatype jsxAttribute =
    JSXAttribute "pos option" "jsstring option" "node option"
      \<comment> \<open>\<open>loc\<close>, \<open>name.name\<close> and \<open>value\<close>\<close>
  | JSXSpreadAttribute

record jsxElement =
  elementName :: jsxName
  attributes :: "jsxAttribute list"
  children :: "node list"

section \<open>Findings and diagnostics\<close>

text \<open>
  A finding is the \<open>errorInfo\<close> object the checkers build. A field that only some kinds of
  finding carry is optional. The \<open>CodeError\<close> of the TypeScript sources adds \<open>codeSnippet\<close>;
  the diagnostic that \<open>formatError\<close> of \<open>enhanced-error-reporter.mjs\<close> returns adds
  \<open>filePath\<close> and \<open>context\<close> as well.
\<close>

record finding =
  line :: nat
  column :: nat
  message :: jsstring
  type :: jsstring
  value' :: jsstring
  functionName :: "jsstring option"
  propertyName :: "jsstring option"
  attributeName :: "jsstring option"
  suggestion :: "jsstring option"

record contextLine =
  lineNumber :: jsstring
  content :: jsstring
  isError :: bool
  markColumn :: "nat option"  \<comment> \<open>\<open>column\<close>, on the error line only\<close>

record codeError = finding +
  codeSnippet :: jsstring

record diagnostic = codeError +
  filePath :: jsstring
  context' :: "contextLine list"

section \<open>The host\<close>

text \<open>
  What the sources take from their environment is a parameter of the model:
  \<^item> \<open>chalk\<close> colours a text;
  \<^item> \<open>readFileSync\<close> gives the content of a file, \<open>None\<close> where it throws;
  \<^item> \<open>isDirectory path\<close> is \<open>fs.statSync(path).isDirectory()\<close>, \<open>None\<close> where \<open>statSync\<close>
    throws;
  \<^item> \<open>parse\<close> stands for the parser followed by the traverser: the \<open>JSXElement\<close> nodes of
    the file in the order the visitor is called on them, or the message of the parse
    error;
  \<^item> \<open>regExpTest source s\<close> is \<open>new RegExp(source).test(s)\<close>;
  \<^item> \<open>codeFrameColumns text line column linesAround message\<close> is the code frame of
    \<open>@babel/code-frame\<close>, \<open>None\<close> where it throws.
\<close>

datatype style = Red | Gray | Green | Yellow | Blue | Cyan | RedBold | YellowBold | CyanBold

record host =
  chalk :: "style \<Rightarrow> jsstring \<Rightarrow> jsstring"
  readFileSync :: "jsstring \<Rightarrow> jsstring option"
  isDirectory :: "jsstring \<Rightarrow> bool option"
  parse :: "jsstring \<Rightarrow> jsstring + jsxElement list"
  regExpTest :: "jsstring \<Rightarrow> jsstring \<Rightarrow> bool"
  codeFrameColumns :: "jsstring \<Rightarrow> nat \<Rightarrow> nat \<Rightarrow> nat \<Rightarrow> jsstring option \<Rightarrow> jsstring option"

text \<open>A host for examples: no colours, no files, every source text unparsable.\<close>

definition plainHost :: host where
  "plainHost =
     \<lparr>chalk = (\<lambda>_ s. s),
      readFileSync = (\<lambda>_. None),
      isDirectory = (\<lambda>_. None),
      parse = (\<lambda>_. Inl (js ''Unexpected token'')),
      regExpTest = (\<lambda>_ _. False),
      codeFrameColumns = (\<lambda>_ _ _ _ _. None)\<rparr>"

section \<open>The reporter of enhanced-error-reporter.mjs\<close>

text \<open>The reporter's state is its \<open>fileCache\<close>, from a path to the lines of the file.\<close>

type_synonym fileCache = "jsstring \<rightharpoonup> jsstring list"

definition getFileLines :: "host \<Rightarrow> fileCache \<Rightarrow> jsstring \<Rightarrow> jsstring list \<times> fileCache" where
  "getFileLines h cache path =
     (case cache path of
        Some ls \<Rightarrow> (ls, cache)
      | None \<Rightarrow>
          (let ls = (case readFileSync h path of Some text \<Rightarrow> splitChar 10 text | None \<Rightarrow> [])
           in (ls, cache(path \<mapsto> ls))))"

definition createCodeContext ::
  "host \<Rightarrow> fileCache \<Rightarrow> jsstring \<Rightarrow> nat \<Rightarrow> nat \<Rightarrow> nat \<Rightarrow> contextLine list \<times> fileCache" where
  "createCodeContext h cache path ln col contextLines =
     (let (ls, cache') = getFileLines h cache path;
          startLine = max 1 (ln - contextLines);
          endLine = min (length ls) (ln + contextLines)
      in (map (\<lambda>i. \<lparr>lineNumber = padStart (toString i) 3 32,
                      content = (if i - 1 < length ls then ls ! (i - 1) else []),
                      isError = (i = ln),
                      markColumn = (if i = ln then Some col else None)\<rparr>)
            [startLine ..< Suc endLine],
          cache'))"

definition generateCodeSnippet :: "host \<Rightarrow> contextLine list \<Rightarrow> nat \<Rightarrow> jsstring" where
  "generateCodeSnippet h ctx col =
     join [10]
       (concat (map (\<lambda>c.
          if isError c then
            chalk h Red (lineNumber c @ js ''| '' @ content c) #
            (if col > 0 then
               [chalk h Red (replicate (length (lineNumber c) + 1) 32 @ js ''| '' @
                             replicate col 32 @ chalk h Red (js ''^^^''))]
             else [])
          else [chalk h Gray (lineNumber c @ js ''| '' @ content c)]) ctx))"

text \<open>\<open>{ ...error, filePath, context, codeSnippet }\<close>: the fields of \<open>error\<close> and three more.\<close>

definition formatError ::
  "host \<Rightarrow> fileCache \<Rightarrow> finding \<Rightarrow> jsstring \<Rightarrow> diagnostic \<times> fileCache" where
  "formatError h cache error path =
     (let (ctx, cache') = createCodeContext h cache path (line error) (column error) 2
      in (codeError.extend
            (finding.extend error
               (codeError.fields (generateCodeSnippet h ctx (column error))))
            (diagnostic.fields path ctx),
          cache'))"

text \<open>
  The fixed texts of the report, as code units: \<open>successText\<close> is the line for an empty
  list, \<open>totalPrefix\<close> and \<open>totalSuffix\<close> enclose the count of the header, \<open>folderPrefix\<close>
  and \<open>countSuffix\<close> enclose a file heading, \<open>suggestionPrefix\<close> starts a suggestion, and
  the \<open>guide\<close> texts are the closing remediation guide.
\<close>

definition successText :: jsstring where
  "successText =
     [9989, 32, 54616, 46300, 53076, 46377, 46108, 32, 53080, 53584, 52768, 44032, 32,
      48156, 44204, 46104, 51648, 32, 50506, 50520, 49845, 45768, 45796, 33]"

definition totalPrefix :: jsstring where
  "totalPrefix =
     [55357, 57000, 32, 52509, 32]"

definition totalSuffix :: jsstring where
  "totalSuffix =
     [44060, 51032, 32, 54616, 46300, 53076, 46377, 32, 48156, 44204, 33, 10]"

definition folderPrefix :: jsstring where
  "folderPrefix =
     [55357, 56513, 32]"

definition countSuffix :: jsstring where
  "countSuffix =
     [44060, 32, 50640, 47084, 41]"

definition suggestionPrefix :: jsstring where
  "suggestionPrefix =
     [55357, 56481, 32, 51228, 50504, 58, 32]"

definition guideTitle :: jsstring where
  "guideTitle =
     [10, 55357, 56538, 32, 49688, 51221, 32, 44032, 51060, 46300, 58, 10]"

definition guide1Label :: jsstring where
  "guide1Label =
     [49, 46, 32, 74, 83, 88, 32, 53581, 49828, 53944, 58]"

definition guide1Text :: jsstring where
  "guide1Text =
     [32, 60, 100, 105, 118, 62, 54616, 46300, 53076, 46377, 60, 47, 100, 105, 118, 62,
      32, 8594, 32, 60, 100, 105, 118, 62, 123, 116, 40, 39, 107, 101, 121, 39, 41,
      125, 60, 47, 100, 105, 118, 62, 10]"

definition guide2Label :: jsstring where
  "guide2Label =
     [50, 46, 32, 49549, 49457, 32, 44050, 58]"

definition guide2Text :: jsstring where
  "guide2Text =
     [32, 60, 105, 109, 103, 32, 97, 108, 116, 61, 34, 54616, 46300, 53076, 46377, 34,
      32, 47, 62, 32, 8594, 32, 60, 105, 109, 103, 32, 97, 108, 116, 61, 123, 116, 40,
      39, 97, 108, 116, 46, 107, 101, 121, 39, 41, 125, 32, 47, 62, 10]"

definition guide3Label :: jsstring where
  "guide3Label =
     [51, 46, 32, 84, 111, 97, 115, 116, 32, 47700, 49884, 51648, 58]"

definition guide3Text :: jsstring where
  "guide3Text =
     [32, 109, 101, 115, 115, 97, 103, 101, 46, 101, 114, 114, 111, 114, 40, 39, 54616,
      46300, 53076, 46377, 39, 41, 32, 8594, 32, 109, 101, 115, 115, 97, 103, 101, 46,
      101, 114, 114, 111, 114, 40, 116, 40, 39, 101, 114, 114, 111, 114, 46, 107, 101,
      121, 39, 41, 41, 10]"

definition guide4Label :: jsstring where
  "guide4Label =
     [52, 46, 32, 44061, 52404, 32, 49549, 49457, 58]"

definition guide4Text :: jsstring where
  "guide4Text =
     [32, 116, 105, 116, 108, 101, 58, 32, 39, 54616, 46300, 53076, 46377, 39, 32,
      8594, 32, 116, 105, 116, 108, 101, 58, 32, 116, 40, 39, 116, 105, 116, 108, 101,
      46, 107, 101, 121, 39, 41, 10]"

definition generateFixGuide :: "host \<Rightarrow> jsstring" where
  "generateFixGuide h =
     chalk h CyanBold
       (guideTitle @ chalk h Cyan guide1Label @ guide1Text @ chalk h Cyan guide2Label @
        guide2Text @ chalk h Cyan guide3Label @ guide3Text @ chalk h Cyan guide4Label @
        guide4Text)"

text \<open>
  \<open>groupErrorsByFile\<close> collects the diagnostics in a plain object keyed by file path. The
  object is modelled as the list of its entries in insertion order, which is the order
  \<open>Object.entries\<close> lists string keys in; a path that is a canonical array index or the
  name of a member of \<open>Object.prototype\<close> is outside the model.
\<close>

definition groupErrorsByFile :: "diagnostic list \<Rightarrow> (jsstring \<times> diagnostic list) list" where
  "groupErrorsByFile errors =
     foldl (\<lambda>groups error.
              (let file = filePath error
               in if map_of groups file = None then groups @ [(file, [error])]
                  else map (\<lambda>(k, es). if k = file then (k, es @ [error]) else (k, es)) groups))
       [] errors"

definition rule80 :: jsstring where
  "rule80 = replicate 80 9472"

definition errorLines :: "host \<Rightarrow> nat \<Rightarrow> nat \<Rightarrow> diagnostic \<Rightarrow> jsstring list" where
  "errorLines h count index error =
     [[10] @ chalk h Red (js ''Error '' @ toString (index + 1) @ js '':'') @ js '' '' @
      message error] @
     (case suggestion error of
        Some s \<Rightarrow> if s \<noteq> [] then [chalk h Blue (suggestionPrefix @ s)] else []
      | None \<Rightarrow> []) @
     [codeSnippet error] @
     (if index < count - 1 then [[]] else [])"

definition fileSection :: "host \<Rightarrow> jsstring \<times> diagnostic list \<Rightarrow> jsstring list" where
  "fileSection h entry =
     (let path = fst entry; fileErrors = snd entry
      in [chalk h YellowBold
            (folderPrefix @ path @ js '' ('' @ toString (length fileErrors) @ countSuffix),
          chalk h Gray rule80] @
         concat (map (\<lambda>(index, error). errorLines h (length fileErrors) index error)
                   (zip [0 ..< length fileErrors] fileErrors)) @
         [[10] @ chalk h Gray rule80 @ [10]])"

text \<open>\<open>reportLines\<close> is the array \<open>report\<close> of \<open>generateReport\<close> just before it is joined.\<close>

definition reportLines :: "host \<Rightarrow> diagnostic list \<Rightarrow> jsstring list" where
  "reportLines h errors =
     [chalk h RedBold (totalPrefix @ toString (length errors) @ totalSuffix)] @
     concat (map (fileSection h) (groupErrorsByFile errors)) @
     [generateFixGuide h]"

definition generateReport :: "host \<Rightarrow> diagnostic list \<Rightarrow> jsstring" where
  "generateReport h errors =
     (if errors = [] then chalk h Green successText else join [10] (reportLines h errors))"

section \<open>The notification-call checker (EnhancedToastChecker, later variant)\<close>

text \<open>
  The file holds two variants of the class. The later one is modelled: it is the one that
  expands object arguments and weighs templates. \<open>isAllowedPattern\<close>, \<open>suggestKey\<close> and
  \<open>getContextPrefix\<close> read the same in both.
\<close>

text \<open>
  An allow-pattern is a regular expression, kept as the predicate its \<open>test\<close> method
  computes (the default patterns carry no \<open>g\<close> or \<open>y\<close> flag, so \<open>test\<close> has no state), or
  a string, which is looked for with \<open>includes\<close>.
\<close>

datatype pattern = RegExp "jsstring \<Rightarrow> bool" | StringPattern jsstring

record toastOptions =
  toastFunctions :: "jsstring list"
  objectProperties :: "jsstring list"
  allowPatterns :: "pattern list"

text \<open>The ten default allow-patterns, each as the predicate of its regular expression.\<close>

definition rx_t_call :: "jsstring \<Rightarrow> bool" where  \<comment> \<open>\<^verbatim>\<open>/^t\(['"]/\<close>\<close>
  "rx_t_call v \<longleftrightarrow>
     (case v of a # b # c # _ \<Rightarrow> a = 116 \<and> b = 40 \<and> (c = 39 \<or> c = 34) | _ \<Rightarrow> False)"

definition rx_i18n :: "jsstring \<Rightarrow> bool" where  \<comment> \<open>\<^verbatim>\<open>/^i18n\./\<close>\<close>
  "rx_i18n v \<longleftrightarrow> startsWith v (js ''i18n.'')"

definition rx_placeholder :: "jsstring \<Rightarrow> bool" where  \<comment> \<open>\<^verbatim>\<open>/^\$\{.*\}$/\<close>\<close>
  "rx_placeholder v \<longleftrightarrow>
     3 \<le> length v \<and> startsWith v (js ''${'') \<and> last v = 125 \<and>
     \<not> list_ex isLineTerminator (butlast (drop 2 v))"

definition rx_keyword :: "jsstring \<Rightarrow> bool" where  \<comment> \<open>\<^verbatim>\<open>/^(true|false|null|undefined)$/\<close>\<close>
  "rx_keyword v \<longleftrightarrow>
     v = js ''true'' \<or> v = js ''false'' \<or> v = js ''null'' \<or> v = js ''undefined''"

definition rx_digits :: "jsstring \<Rightarrow> bool" where  \<comment> \<open>\<^verbatim>\<open>/^\d+$/\<close>\<close>
  "rx_digits v \<longleftrightarrow> v \<noteq> [] \<and> list_all (\<lambda>c. 48 \<le> c \<and> c \<le> 57) v"

definition dropQuote :: "jsstring \<Rightarrow> jsstring" where
  "dropQuote v = (case v of [] \<Rightarrow> [] | c # cs \<Rightarrow> if c = 39 \<or> c = 34 then cs else c # cs)"

definition rx_empty :: "jsstring \<Rightarrow> bool" where  \<comment> \<open>\<^verbatim>\<open>/^['"]?\s*['"]?$/\<close>\<close>
  "rx_empty v \<longleftrightarrow> dropQuote (dropWhile isWhiteSpace (dropQuote v)) = []"

definition rx_console :: "jsstring \<Rightarrow> bool" where  \<comment> \<open>\<^verbatim>\<open>/^console\./\<close>\<close>
  "rx_console v \<longleftrightarrow> startsWith v (js ''console.'')"

definition rx_env :: "jsstring \<Rightarrow> bool" where  \<comment> \<open>\<^verbatim>\<open>/^process\.env\./\<close>\<close>
  "rx_env v \<longleftrightarrow> startsWith v (js ''process.env.'')"

definition rx_import :: "jsstring \<Rightarrow> bool" where  \<comment> \<open>\<^verbatim>\<open>/^import\(/\<close>\<close>
  "rx_import v \<longleftrightarrow> startsWith v (js ''import('')"

definition rx_require :: "jsstring \<Rightarrow> bool" where  \<comment> \<open>\<^verbatim>\<open>/^require\(/\<close>\<close>
  "rx_require v \<longleftrightarrow> startsWith v (js ''require('')"

definition defaultAllowPatterns :: "pattern list" where
  "defaultAllowPatterns =
     [RegExp rx_t_call, RegExp rx_i18n, RegExp rx_placeholder, RegExp rx_keyword,
      RegExp rx_digits, RegExp rx_empty, RegExp rx_console, RegExp rx_env,
      RegExp rx_import, RegExp rx_require]"

definition defaultOptions :: toastOptions where
  "defaultOptions =
     \<lparr>toastFunctions =
        [js ''message.error'', js ''message.success'', js ''message.warning'',
         js ''message.info'', js ''message.loading'',
         js ''Message.error'', js ''Message.success'', js ''Message.warning'',
         js ''Message.info'',
         js ''toast.error'', js ''toast.success'', js ''toast.warning'', js ''toast.info'',
         js ''notification.error'', js ''notification.success'',
         js ''notification.warning'', js ''notification.info'', js ''notification.open'',
         js ''alert'', js ''confirm'', js ''prompt'',
         js ''showMessage'', js ''showError'', js ''showSuccess'', js ''showWarning'',
         js ''message''],
      objectProperties =
        [js ''title'', js ''message'', js ''description'', js ''content'', js ''label'',
         js ''placeholder'', js ''tooltip'', js ''helpText'', js ''errorMessage'',
         js ''successMessage'', js ''warningMessage'', js ''text'', js ''body'',
         js ''detail''],
      allowPatterns = defaultAllowPatterns\<rparr>"

definition patternMatches :: "pattern \<Rightarrow> jsstring \<Rightarrow> bool" where
  "patternMatches p v = (case p of RegExp test \<Rightarrow> test v | StringPattern s \<Rightarrow> includesStr v s)"

definition isAllowedPattern :: "toastOptions \<Rightarrow> jsstring \<Rightarrow> bool" where
  "isAllowedPattern opts v =
     (if v = [] \<or> trim v = [] then True
      else list_ex (\<lambda>p. patternMatches p v) (allowPatterns opts))"

text \<open>
  \<open>isUserFacingProperty\<close> is called on \<open>ObjectProperty\<close> nodes; a key that is neither an
  \<open>Identifier\<close> nor a \<open>Literal\<close> gives false.
\<close>

definition isUserFacingProperty :: "toastOptions \<Rightarrow> node \<Rightarrow> bool" where
  "isUserFacingProperty opts n =
     (case n of
        ObjectProperty _ k _ \<Rightarrow>
          (case k of
             Identifier _ nm \<Rightarrow> nm \<in> set (objectProperties opts)
           | Literal _ v \<Rightarrow> (case v of LString s \<Rightarrow> s \<in> set (objectProperties opts) | _ \<Rightarrow> False)
           | _ \<Rightarrow> False)
      | _ \<Rightarrow> False)"

definition MIN_STATIC_LENGTH :: nat where
  "MIN_STATIC_LENGTH = 3"

definition hasSignificantStaticContent :: "node \<Rightarrow> bool" where
  "hasSignificantStaticContent n =
     (case n of
        TemplateLiteral _ quasis _ \<Rightarrow>
          foldl (\<lambda>total quasi. total + length quasi) 0 quasis \<ge> MIN_STATIC_LENGTH
      | _ \<Rightarrow> False)"

text \<open>
  \<open>isHardcodedValue\<close> and \<open>hasHardcodedObjectProperties\<close> call each other. The test
  \<open>!node\<close> is for a missing attribute value; the calls modelled here pass a node.
\<close>

fun isHardcodedValue :: "toastOptions \<Rightarrow> node \<Rightarrow> bool"
  and hasHardcodedObjectProperties :: "toastOptions \<Rightarrow> node \<Rightarrow> bool" where
  "isHardcodedValue opts (Literal l v) =
     (case v of LString s \<Rightarrow> \<not> isAllowedPattern opts s | _ \<Rightarrow> False)"
| "isHardcodedValue opts (StringLiteral l s) = (\<not> isAllowedPattern opts s)"
| "isHardcodedValue opts (TemplateLiteral l quasis exprs) =
     (if exprs = [] then \<not> isAllowedPattern opts (case quasis of [] \<Rightarrow> [] | q # _ \<Rightarrow> q)
      else hasSignificantStaticContent (TemplateLiteral l quasis exprs))"
| "isHardcodedValue opts (JSXExpressionContainer l e) = isHardcodedValue opts e"
| "isHardcodedValue opts (ObjectExpression l props) =
     hasHardcodedObjectProperties opts (ObjectExpression l props)"
| "isHardcodedValue opts (ArrayExpression l elements) =
     list_ex (\<lambda>element. case element of None \<Rightarrow> False | Some e \<Rightarrow> isHardcodedValue opts e)
       elements"
| "isHardcodedValue opts _ = False"
| "hasHardcodedObjectProperties opts (ObjectExpression l props) =
     list_ex (\<lambda>prop.
        case prop of
          ObjectProperty _ k v \<Rightarrow> isUserFacingProperty opts prop \<and> isHardcodedValue opts v
        | SpreadElement _ a \<Rightarrow> isHardcodedValue opts a
        | _ \<Rightarrow> False) props"
| "hasHardcodedObjectProperties opts _ = False"

text \<open>
  The fixed texts of the checker: \<open>complexExpression\<close> is the sentinel for a value that
  cannot be shown and \<open>templateLiteralText\<close> the one for a template without static text;
  \<open>hardcodedText\<close> (with a trailing space), \<open>messageText\<close> and \<open>objectPropertyText\<close> (both
  with a leading space) are the Korean parts of the messages.
\<close>

definition complexExpression :: jsstring where
  "complexExpression = [91, 48373, 51105, 54620, 32, 54364, 54788, 49885, 93]"

definition templateLiteralText :: jsstring where
  "templateLiteralText = [91, 53596, 54540, 47551, 32, 47532, 53552, 47092, 93]"

definition hardcodedText :: jsstring where
  "hardcodedText = [54616, 46300, 53076, 46377, 46108, 32]"

definition messageText :: jsstring where
  "messageText = [32, 47700, 49884, 51648]"

definition objectPropertyText :: jsstring where
  "objectPropertyText = [32, 44061, 52404, 32, 49549, 49457, 32]"

text \<open>
  The visitors call \<open>getStringValue\<close> on hardcoded values only, where a \<open>Literal\<close> holds a
  string.
\<close>

fun getStringValue :: "node \<Rightarrow> jsstring" where
  "getStringValue (Literal l v) = (case v of LString s \<Rightarrow> s | LNumber t \<Rightarrow> t | LOther t \<Rightarrow> t)"
| "getStringValue (StringLiteral l s) = s"
| "getStringValue (TemplateLiteral l quasis exprs) =
     (if exprs = [] then (case quasis of [] \<Rightarrow> [] | q # _ \<Rightarrow> q)
      else (let staticParts = concat quasis
            in if staticParts \<noteq> [] then staticParts else templateLiteralText))"
| "getStringValue (JSXExpressionContainer l e) = getStringValue e"
| "getStringValue _ = complexExpression"

definition isHangul :: "nat \<Rightarrow> bool" where
  "isHangul c \<longleftrightarrow> 44032 \<le> c \<and> c \<le> 55203"

text \<open>The characters that \<^verbatim>\<open>replace(/[^a-zA-Z0-9\s...]/g, '')\<close> keeps.\<close>

definition isKeyChar :: "nat \<Rightarrow> bool" where
  "isKeyChar c \<longleftrightarrow>
     (97 \<le> c \<and> c \<le> 122) \<or> (65 \<le> c \<and> c \<le> 90) \<or> (48 \<le> c \<and> c \<le> 57) \<or>
     isWhiteSpace c \<or> isHangul c"

definition getContextPrefix :: "jsstring \<Rightarrow> jsstring" where
  "getContextPrefix ctx =
     (case map_of
        [(js ''message.error'', js ''error''),
         (js ''message.success'', js ''success''),
         (js ''message.warning'', js ''warning''),
         (js ''message.info'', js ''info''),
         (js ''Message.error'', js ''error''),
         (js ''Message.success'', js ''success''),
         (js ''Message.warning'', js ''warning''),
         (js ''alert'', js ''alert''),
         (js ''confirm'', js ''confirm''),
         (js ''title'', js ''title''),
         (js ''description'', js ''description''),
         (js ''label'', js ''label''),
         (js ''placeholder'', js ''placeholder''),
         (js ''tooltip'', js ''tooltip''),
         (js ''helpText'', js ''help'')] ctx of
        Some prefix \<Rightarrow> prefix
      | None \<Rightarrow> js ''common'')"

definition camelWord :: "nat \<Rightarrow> jsstring \<Rightarrow> jsstring" where
  "camelWord index word =
     (if index = 0 then toLowerCase word
      else if list_ex isHangul word then word
      else toUpperCase (take 1 word) @ toLowerCase (drop 1 word))"

definition suggestKey :: "jsstring \<Rightarrow> jsstring \<Rightarrow> jsstring" where
  "suggestKey ctx v =
     (let ws = splitWhiteSpace (trim (filter isKeyChar v));
          cleanValue = concat (map (\<lambda>(index, word). camelWord index word)
                                 (zip [0 ..< length ws] ws))
      in getContextPrefix ctx @ js ''.'' @ cleanValue)"

text \<open>
  \<open>node.property.name\<close> is the name of an identifier; for any other property node it is
  \<open>undefined\<close>, which the template string renders as the text \<open>undefined\<close>.
\<close>

fun getCalleeText :: "node \<Rightarrow> jsstring" where
  "getCalleeText (MemberExpression l obj prop) =
     getCalleeText obj @ js ''.'' @
     (case prop of Identifier _ nm \<Rightarrow> nm | _ \<Rightarrow> js ''undefined'')"
| "getCalleeText (Identifier l nm) = nm"
| "getCalleeText _ = []"

text \<open>A configured name that contains \<open>*\<close> is turned into a regular expression at run time.\<close>

definition replaceStar :: "jsstring \<Rightarrow> jsstring" where
  "replaceStar func = concat (map (\<lambda>c. if c = 42 then js ''.*'' else [c]) func)"

definition isToastFunction :: "host \<Rightarrow> toastOptions \<Rightarrow> jsstring \<Rightarrow> bool" where
  "isToastFunction h opts calleeText =
     list_ex (\<lambda>func.
        if 42 \<in> set func then regExpTest h (js ''^'' @ replaceStar func @ js ''$'') calleeText
        else calleeText = func) (toastFunctions opts)"

definition findHardcodedArguments :: "toastOptions \<Rightarrow> node list \<Rightarrow> node list" where
  "findHardcodedArguments opts args = filter (isHardcodedValue opts) args"

text \<open>
  \<open>prop.key.name || prop.key.value\<close>, which is read for user-facing properties only; their
  key is an identifier or holds a string.
\<close>

definition keyName :: "node \<Rightarrow> jsstring option" where
  "keyName k =
     (case k of
        Identifier _ nm \<Rightarrow> Some nm
      | Literal _ v \<Rightarrow> (case v of LString s \<Rightarrow> Some s | _ \<Rightarrow> None)
      | StringLiteral _ s \<Rightarrow> Some s
      | _ \<Rightarrow> None)"

definition shown :: "jsstring option \<Rightarrow> jsstring" where
  "shown x = (case x of Some s \<Rightarrow> s | None \<Rightarrow> js ''undefined'')"

definition isFlaggedProperty :: "toastOptions \<Rightarrow> node \<Rightarrow> bool" where
  "isFlaggedProperty opts prop =
     (case prop of
        ObjectProperty _ _ v \<Rightarrow> isUserFacingProperty opts prop \<and> isHardcodedValue opts v
      | _ \<Rightarrow> False)"

definition objectPropertyErrorInfo :: "node \<Rightarrow> jsstring \<Rightarrow> finding" where
  "objectPropertyErrorInfo prop fn =
     (case prop of
        ObjectProperty pl k v \<Rightarrow>
          \<lparr>line = orElse (lineOf (loc v)) (lineOf pl),
           column = orElse (columnOf (loc v)) (columnOf pl),
           message = hardcodedText @ fn @ objectPropertyText @ [34] @ shown (keyName k) @ [34],
           type = js ''toast-object-property'',
           value' = getStringValue v,
           functionName = Some fn,
           propertyName = keyName k,
           attributeName = None,
           suggestion = Some (shown (keyName k) @ js '': t('' @ [39] @
                              suggestKey (shown (keyName k)) (getStringValue v) @ [39] @
                              js '')'')\<rparr>)"

text \<open>
  \<open>isFlaggedProperty\<close> is the condition of \<open>getObjectPropertyErrors\<close> on one property and
  \<open>objectPropertyErrorInfo\<close> the \<open>errorInfo\<close> it builds.
\<close>

definition getObjectPropertyErrors ::
  "host \<Rightarrow> toastOptions \<Rightarrow> fileCache \<Rightarrow> node \<Rightarrow> jsstring \<Rightarrow> jsstring \<Rightarrow>
   diagnostic list \<times> fileCache" where
  "getObjectPropertyErrors h opts cache objectNode fn path =
     (case objectNode of
        ObjectExpression _ props \<Rightarrow>
          foldl (\<lambda>(errors, c) prop.
                   if isFlaggedProperty opts prop
                   then (let (enhancedError, c') =
                               formatError h c (objectPropertyErrorInfo prop fn) path
                         in (errors @ [enhancedError], c'))
                   else (errors, c))
            ([], cache) props
      | _ \<Rightarrow> ([], cache))"

definition toastErrorInfo :: "node \<Rightarrow> jsstring \<Rightarrow> finding" where
  "toastErrorInfo arg calleeText =
     \<lparr>line = lineOf (loc arg),
      column = columnOf (loc arg),
      message = hardcodedText @ calleeText @ messageText,
      type = js ''toast-function'',
      value' = getStringValue arg,
      functionName = Some calleeText,
      propertyName = None,
      attributeName = None,
      suggestion = Some (calleeText @ js ''(t('' @ [39] @
                         suggestKey calleeText (getStringValue arg) @ [39] @ js ''))'')\<rparr>"

text \<open>
  The \<open>CallExpression\<close> visitor of \<open>checkFile\<close>: the diagnostics it pushes onto \<open>errors\<close>
  for one call node, and the reporter's cache afterwards.
\<close>

definition visitCallExpression ::
  "host \<Rightarrow> toastOptions \<Rightarrow> fileCache \<Rightarrow> jsstring \<Rightarrow> node \<Rightarrow> diagnostic list \<times> fileCache" where
  "visitCallExpression h opts cache path n =
     (case n of
        CallExpression _ callee args \<Rightarrow>
          (let calleeText = getCalleeText callee
           in if isToastFunction h opts calleeText then
                foldl (\<lambda>(errors, c) arg.
                         (case arg of
                            ObjectExpression _ _ \<Rightarrow>
                              (let (objectErrors, c') =
                                     getObjectPropertyErrors h opts c arg calleeText path
                               in (errors @ objectErrors, c'))
                          | _ \<Rightarrow>
                              (let (enhancedError, c') =
                                     formatError h c (toastErrorInfo arg calleeText) path
                               in (errors @ [enhancedError], c'))))
                  ([], cache) (findHardcodedArguments opts args)
              else ([], cache))
      | _ \<Rightarrow> ([], cache))"

text \<open>
  The findings of a call, stated without the reporter: \<open>propertyFindings\<close> are the findings
  of the properties of an object literal, \<open>argumentFindings\<close> those of one hardcoded
  argument. That the visitor computes them is \<open>visitCallExpression_findings\<close> below.
\<close>

definition propertyFindings :: "toastOptions \<Rightarrow> jsstring \<Rightarrow> node list \<Rightarrow> finding list" where
  "propertyFindings opts fn props =
     map (\<lambda>prop. objectPropertyErrorInfo prop fn) (filter (isFlaggedProperty opts) props)"

definition argumentFindings :: "toastOptions \<Rightarrow> jsstring \<Rightarrow> node \<Rightarrow> finding list" where
  "argumentFindings opts calleeText arg =
     (case arg of
        ObjectExpression _ props \<Rightarrow> propertyFindings opts calleeText props
      | _ \<Rightarrow> [toastErrorInfo arg calleeText])"

section \<open>The markup checker of jsx-hardcoded-checker.mjs\<close>

text \<open>
  A policy is the options object a check runs under: the checker's own options, or the
  entry of \<open>dom\<close> for the element's tag, which holds \<open>checkProps\<close> only. A missing field
  takes its default where the policy is destructured: \<open>allowStrings = false\<close>,
  \<open>allowNumbers = true\<close>, \<open>checkProps = []\<close>.
\<close>

record policy =
  allowStrings :: "bool option"
  allowNumbers :: "bool option"
  checkProps :: "jsstring list option"

record jsxOptions = policy +
  dom :: "(jsstring \<times> policy) list"

definition domPolicy :: "jsstring list \<Rightarrow> policy" where
  "domPolicy props = \<lparr>allowStrings = None, allowNumbers = None, checkProps = Some props\<rparr>"

definition defaultJSXOptions :: jsxOptions where
  "defaultJSXOptions =
     \<lparr>allowStrings = Some False,
      allowNumbers = Some True,
      checkProps = Some [js ''title'', js ''aria-label'', js ''alt'', js ''placeholder''],
      dom =
        [(js ''img'', domPolicy [js ''alt'', js ''title'', js ''aria-label'']),
         (js ''input'', domPolicy [js ''placeholder'', js ''title'', js ''aria-label'']),
         (js ''button'', domPolicy [js ''title'', js ''aria-label'']),
         (js ''a'', domPolicy [js ''title'', js ''aria-label'']),
         (js ''area'', domPolicy [js ''alt'', js ''title'', js ''aria-label''])]\<rparr>"

definition allowStringsOf :: "policy \<Rightarrow> bool" where
  "allowStringsOf p = (case allowStrings p of Some b \<Rightarrow> b | None \<Rightarrow> False)"

definition allowNumbersOf :: "policy \<Rightarrow> bool" where
  "allowNumbersOf p = (case allowNumbers p of Some b \<Rightarrow> b | None \<Rightarrow> True)"

definition checkPropsOf :: "policy \<Rightarrow> jsstring list" where
  "checkPropsOf p = (case checkProps p of Some ps \<Rightarrow> ps | None \<Rightarrow> [])"

text \<open>
  \<open>getOptionsForNode\<close>: a tag whose first character equals its own lower case is a DOM
  element. For a member expression \<open>name.name\<close> is undefined and the checker's options
  are used; for a namespaced name it is an object, and \<open>tagName[0].toLowerCase()\<close> raises
  a \<open>TypeError\<close>, which is the result \<open>None\<close>. Case mapping outside ASCII is not modelled.
\<close>

definition getOptionsForNode_mjs :: "jsxOptions \<Rightarrow> jsxElement \<Rightarrow> policy option" where
  "getOptionsForNode_mjs opts n =
     (case elementName n of
        JSXIdentifier tagName \<Rightarrow>
          if tagName \<noteq> [] \<and> take 1 tagName = toLowerCase (take 1 tagName)
          then (case map_of (dom opts) tagName of
                  Some p \<Rightarrow> Some p
                | None \<Rightarrow> Some (policy.truncate opts))
          else Some (policy.truncate opts)
      | JSXMemberExpression \<Rightarrow> Some (policy.truncate opts)
      | JSXNamespacedName \<Rightarrow> None)"

text \<open>\<open>isInvalidContent(node, { allowStrings, allowNumbers })\<close>; \<open>None\<close> is a missing node.\<close>

fun isInvalidContent_mjs :: "node option \<Rightarrow> bool \<Rightarrow> bool \<Rightarrow> bool" where
  "isInvalidContent_mjs None strs nums = False"
| "isInvalidContent_mjs (Some (JSXText l v)) strs nums =
     (if trim v = [] then False else \<not> strs)"
| "isInvalidContent_mjs (Some (Literal l v)) strs nums =
     (case v of
        LString s \<Rightarrow> if trim s = [] then False else \<not> strs
      | LNumber _ \<Rightarrow> \<not> nums
      | LOther _ \<Rightarrow> False)"
| "isInvalidContent_mjs (Some (TemplateLiteral l quasis exprs)) strs nums = (\<not> strs)"
| "isInvalidContent_mjs (Some (JSXExpressionContainer l e)) strs nums =
     isInvalidContent_mjs (Some e) strs nums"
| "isInvalidContent_mjs (Some _) strs nums = False"

fun getStringValue_mjs :: "node option \<Rightarrow> jsstring" where
  "getStringValue_mjs None = []"
| "getStringValue_mjs (Some (JSXText l v)) = v"
| "getStringValue_mjs (Some (Literal l v)) =
     (case v of LString s \<Rightarrow> s | LNumber t \<Rightarrow> t | LOther t \<Rightarrow> t)"
| "getStringValue_mjs (Some (TemplateLiteral l quasis exprs)) =
     (if exprs = [] then (case quasis of [] \<Rightarrow> [] | q # _ \<Rightarrow> q) else complexExpression)"
| "getStringValue_mjs (Some (JSXExpressionContainer l e)) = getStringValue_mjs (Some e)"
| "getStringValue_mjs (Some _) = complexExpression"

text \<open>
  The fixed texts of the markup checkers: the message for a text child, the message for
  an attribute up to the opening quote of its name, and the end of a suggestion.
\<close>

definition jsxTextMessage :: jsstring where
  "jsxTextMessage =
     [54616, 46300, 53076, 46377, 46108, 32, 74, 83, 88, 32, 53581, 49828, 53944, 32,
      53080, 53584, 52768]"

definition jsxPropMessage :: jsstring where
  "jsxPropMessage =
     [54616, 46300, 53076, 46377, 46108, 32, 74, 83, 88, 32, 49549, 49457, 32, 34]"

definition replaceText :: jsstring where
  "replaceText =
     [47196, 32, 44368, 52404, 54616, 49464, 50836]"

definition childErrorInfo :: "node \<Rightarrow> finding" where
  "childErrorInfo child =
     \<lparr>line = lineOf (loc child),
      column = columnOf (loc child),
      message = jsxTextMessage,
      type = js ''jsx-children'',
      value' = getStringValue_mjs (Some child),
      functionName = None,
      propertyName = None,
      attributeName = None,
      suggestion = Some (js ''{t('' @ [39] @ js ''componentName.text'' @ [39] @ js '')}'' @
                         replaceText)\<rparr>"

definition checkChildren_mjs ::
  "host \<Rightarrow> fileCache \<Rightarrow> jsxElement \<Rightarrow> policy \<Rightarrow> jsstring \<Rightarrow> diagnostic list \<times> fileCache" where
  "checkChildren_mjs h cache n options path =
     foldl (\<lambda>(errors, c) child.
              if isInvalidContent_mjs (Some child) (allowStringsOf options)
                   (allowNumbersOf options)
              then (let (enhancedError, c') = formatError h c (childErrorInfo child) path
                    in (errors @ [enhancedError], c'))
              else (errors, c))
       ([], cache) (children n)"

definition propErrorInfo :: "pos option \<Rightarrow> jsstring option \<Rightarrow> node option \<Rightarrow> finding" where
  "propErrorInfo al nm v =
     \<lparr>line = orElse (lineOf (case v of Some x \<Rightarrow> loc x | None \<Rightarrow> None)) (lineOf al),
      column = orElse (columnOf (case v of Some x \<Rightarrow> loc x | None \<Rightarrow> None)) (columnOf al),
      message = jsxPropMessage @ shown nm @ [34],
      type = js ''jsx-prop'',
      value' = getStringValue_mjs v,
      functionName = None,
      propertyName = None,
      attributeName = None,
      suggestion = Some (shown nm @ js ''={t('' @ [39] @ shown nm @ js ''.key'' @ [39] @
                         js '')}'' @ replaceText)\<rparr>"

definition inCheckProps :: "policy \<Rightarrow> jsstring option \<Rightarrow> bool" where
  "inCheckProps options nm = (case nm of Some s \<Rightarrow> s \<in> set (checkPropsOf options) | None \<Rightarrow> False)"

definition checkProps_mjs ::
  "host \<Rightarrow> fileCache \<Rightarrow> jsxElement \<Rightarrow> policy \<Rightarrow> jsstring \<Rightarrow> diagnostic list \<times> fileCache" where
  "checkProps_mjs h cache n options path =
     foldl (\<lambda>(errors, c) attr.
              (case attr of
                 JSXAttribute al nm v \<Rightarrow>
                   if inCheckProps options nm \<and>
                      isInvalidContent_mjs v (allowStringsOf options) (allowNumbersOf options)
                   then (let (enhancedError, c') = formatError h c (propErrorInfo al nm v) path
                         in (errors @ [enhancedError], c'))
                   else (errors, c)
               | JSXSpreadAttribute \<Rightarrow> (errors, c)))
       ([], cache) (attributes n)"

section \<open>The markup checker of the TypeScript sources (JSXHardcodeChecker)\<close>

text \<open>
  \<open>"value" in node\<close> holds for the literals that carry a value (and for a \<open>JSXText\<close>, which
  is tested first); the value of a \<open>BigIntLiteral\<close> is a string.
\<close>

fun isInvalidContent_ts :: "node option \<Rightarrow> bool \<Rightarrow> bool \<Rightarrow> bool" where
  "isInvalidContent_ts None strs nums = False"
| "isInvalidContent_ts (Some (JSXText l v)) strs nums =
     (if trim v = [] then False else \<not> strs)"
| "isInvalidContent_ts (Some (StringLiteral l s)) strs nums =
     (if trim s = [] then False else \<not> strs)"
| "isInvalidContent_ts (Some (BigIntLiteral l s)) strs nums =
     (if trim s = [] then False else \<not> strs)"
| "isInvalidContent_ts (Some (Literal l v)) strs nums =
     (case v of
        LString s \<Rightarrow> if trim s = [] then False else \<not> strs
      | LNumber _ \<Rightarrow> \<not> nums
      | LOther _ \<Rightarrow> False)"
| "isInvalidContent_ts (Some (NumericLiteral l t)) strs nums = (\<not> nums)"
| "isInvalidContent_ts (Some (TemplateLiteral l quasis exprs)) strs nums = (\<not> strs)"
| "isInvalidContent_ts (Some (JSXExpressionContainer l e)) strs nums =
     isInvalidContent_ts (Some e) strs nums"
| "isInvalidContent_ts (Some _) strs nums = False"

fun getStringValue_ts :: "node option \<Rightarrow> jsstring" where
  "getStringValue_ts None = []"
| "getStringValue_ts (Some (JSXText l v)) = v"
| "getStringValue_ts (Some (JSXExpressionContainer l e)) = getStringValue_ts (Some e)"
| "getStringValue_ts (Some (TemplateLiteral l quasis exprs)) =
     (if exprs = [] then (case quasis of [] \<Rightarrow> [] | q # _ \<Rightarrow> q) else complexExpression)"
| "getStringValue_ts (Some (StringLiteral l s)) = s"
| "getStringValue_ts (Some (BigIntLiteral l s)) = s"
| "getStringValue_ts (Some (Literal l v)) =
     (case v of LString s \<Rightarrow> s | _ \<Rightarrow> complexExpression)"
| "getStringValue_ts (Some _) = complexExpression"

definition getOptionsForNode_ts :: "jsxOptions \<Rightarrow> jsxElement \<Rightarrow> policy" where
  "getOptionsForNode_ts opts n =
     (case elementName n of
        JSXIdentifier tagName \<Rightarrow>
          if tagName \<noteq> [] \<and> take 1 tagName = toLowerCase (take 1 tagName)
          then (case map_of (dom opts) tagName of
                  Some p \<Rightarrow> p
                | None \<Rightarrow> policy.truncate opts)
          else policy.truncate opts
      | _ \<Rightarrow> policy.truncate opts)"

definition childCodeError :: "node \<Rightarrow> codeError" where
  "childCodeError child =
     \<lparr>line = lineOf (loc child),
      column = columnOf (loc child),
      message = jsxTextMessage,
      type = js ''jsx-children'',
      value' = getStringValue_ts (Some child),
      functionName = None,
      propertyName = None,
      attributeName = None,
      suggestion = None,
      codeSnippet = []\<rparr>"

definition checkChildren_ts :: "jsxElement \<Rightarrow> policy \<Rightarrow> codeError list" where
  "checkChildren_ts n options =
     map childCodeError
       (filter (\<lambda>child. isInvalidContent_ts (Some child) (allowStringsOf options)
                          (allowNumbersOf options))
          (children n))"

definition propCodeError :: "pos option \<Rightarrow> jsstring option \<Rightarrow> node option \<Rightarrow> codeError" where
  "propCodeError al nm v =
     \<lparr>line = orElse (lineOf (case v of Some x \<Rightarrow> loc x | None \<Rightarrow> None)) (lineOf al),
      column = orElse (columnOf (case v of Some x \<Rightarrow> loc x | None \<Rightarrow> None)) (columnOf al),
      message = jsxPropMessage @ shown nm @ [34],
      type = js ''jsx-prop'',
      value' = getStringValue_ts v,
      functionName = None,
      propertyName = None,
      attributeName = None,
      suggestion = None,
      codeSnippet = []\<rparr>"

definition checkProps_ts :: "jsxElement \<Rightarrow> policy \<Rightarrow> codeError list" where
  "checkProps_ts n options =
     concat (map (\<lambda>attr.
                    case attr of
                      JSXAttribute al nm v \<Rightarrow>
                        if inCheckProps options nm \<and>
                           isInvalidContent_ts v (allowStringsOf options)
                             (allowNumbersOf options)
                        then [propCodeError al nm v]
                        else []
                    | JSXSpreadAttribute \<Rightarrow> [])
               (attributes n))"

section \<open>The reporters of the TypeScript sources (ErrorReporter)\<close>

text \<open>
  The fixed texts: the warning for a file that cannot be read, the placeholder of the
  later reporter for a snippet that cannot be built, the placeholder of the earlier
  reporter for a file without content, and its message before it exits.
\<close>

definition unreadableWarning :: jsstring where
  "unreadableWarning =
     [9888, 65039, 32, 32, 54028, 51068, 51012, 32, 51069, 51012, 32, 49688, 32, 50630,
      49845, 45768, 45796, 58, 32]"

definition noSnippetText :: jsstring where
  "noSnippetText =
     [9888, 65039, 32, 32, 53076, 46300, 32, 49828, 45768, 54187, 51012, 32, 49373,
      49457, 54624, 32, 49688, 32, 50630, 49845, 45768, 45796, 58, 32]"

definition unreadableText :: jsstring where
  "unreadableText =
     [40, 54028, 51068, 32, 45236, 50857, 51012, 32, 51069, 51012, 32, 49688, 32,
      50630, 49845, 45768, 45796, 41]"

definition frameFailedText :: jsstring where
  "frameFailedText =
     [10060, 32, 53076, 46300, 32, 54532, 47112, 51076, 32, 49373, 49457, 32, 51473,
      32, 50724, 47448, 44032, 32, 48156, 49373, 54664, 49845, 45768, 45796, 58, 32]"

subsection \<open>The later reporter, \<open>src/unnamed/part_001\<close>\<close>

text \<open>
  The state is the reporter's three fields and what has been written to the console.
  \<open>fileErrors\<close> is a \<open>Map\<close>: its entries in insertion order.
\<close>

record reporter =
  sourceCache :: "jsstring \<rightharpoonup> jsstring"
  fileErrors :: "(jsstring \<times> codeError list) list"
  codeErrors :: "codeError list"
  console :: "jsstring list"

definition newReporter :: reporter where
  "newReporter = \<lparr>sourceCache = Map.empty, fileErrors = [], codeErrors = [], console = []\<rparr>"

definition mapSet :: "('k \<times> 'v) list \<Rightarrow> 'k \<Rightarrow> 'v \<Rightarrow> ('k \<times> 'v) list" where
  "mapSet m k v =
     (if map_of m k = None then m @ [(k, v)]
      else map (\<lambda>(k', v'). if k' = k then (k', v) else (k', v')) m)"

definition getFileLines_ts :: "host \<Rightarrow> reporter \<Rightarrow> jsstring \<Rightarrow> jsstring \<times> reporter" where
  "getFileLines_ts h r path =
     (case sourceCache r path of
        Some text \<Rightarrow> (text, r)
      | None \<Rightarrow>
          (case readFileSync h path of
             Some text \<Rightarrow> (text, r\<lparr>sourceCache := (sourceCache r)(path \<mapsto> text)\<rparr>)
           | None \<Rightarrow>
               ([], r\<lparr>sourceCache := (sourceCache r)(path \<mapsto> []),
                       console := console r @ [chalk h Yellow (unreadableWarning @ path)]\<rparr>)))"

text \<open>
  \<open>generateCodeSnippet\<close>: the \<open>catch\<close> returns the placeholder. What \<open>getFileLines\<close> did
  to the state before \<open>codeFrameColumns\<close> threw stays done.
\<close>

definition generateCodeSnippet_ts ::
  "host \<Rightarrow> reporter \<Rightarrow> jsstring \<Rightarrow> nat \<Rightarrow> nat \<Rightarrow> jsstring \<times> reporter" where
  "generateCodeSnippet_ts h r path ln col =
     (let (text, r') = getFileLines_ts h r path
      in case codeFrameColumns h text ln col 2 None of
           Some frame \<Rightarrow> (frame, r')
         | None \<Rightarrow> (chalk h Red (noSnippetText @ path), r'))"

definition formatError_ts ::
  "host \<Rightarrow> reporter \<Rightarrow> codeError \<Rightarrow> jsstring \<Rightarrow> codeError \<times> reporter" where
  "formatError_ts h r error path =
     (let (snippet, r') = generateCodeSnippet_ts h r path (line error) (column error)
      in (error\<lparr>codeSnippet := snippet\<rparr>, r'))"

definition addCodeError :: "host \<Rightarrow> reporter \<Rightarrow> jsstring \<Rightarrow> codeError \<Rightarrow> reporter" where
  "addCodeError h r path error =
     (let r1 = (if map_of (fileErrors r) path = None
                then r\<lparr>fileErrors := mapSet (fileErrors r) path []\<rparr> else r);
          (formattedError, r2) = formatError_ts h r1 error path;
          newErrors = (case map_of (fileErrors r2) path of Some es \<Rightarrow> es | None \<Rightarrow> []) @
                      [formattedError]
      in r2\<lparr>codeErrors := codeErrors r2 @ [formattedError],
             fileErrors := mapSet (fileErrors r2) path newErrors\<rparr>)"

text \<open>
  \<open>Object.entries\<close> lists the own enumerable string-keyed properties of an object. A
  \<open>Map\<close> keeps its entries in an internal slot and has no such property, so for
  \<open>this.fileErrors\<close> the list is empty whatever the map holds.
\<close>

definition objectEntriesOfMap :: "('k \<times> 'v) list \<Rightarrow> ('k \<times> 'v) list" where
  "objectEntriesOfMap m = []"

definition errorLines_ts :: "host \<Rightarrow> nat \<Rightarrow> nat \<Rightarrow> codeError \<Rightarrow> jsstring list" where
  "errorLines_ts h count index error =
     [[10] @ chalk h Red (js ''Error '' @ toString (index + 1) @ js '':'') @ js '' '' @
      message error,
      codeSnippet error] @
     (if index < count - 1 then [[]] else [])"

definition fileSection_ts :: "host \<Rightarrow> jsstring \<times> codeError list \<Rightarrow> jsstring list" where
  "fileSection_ts h entry =
     (let path = fst entry; es = snd entry
      in [chalk h YellowBold
            (folderPrefix @ path @ js '' ('' @ toString (length es) @ countSuffix),
          chalk h Gray rule80] @
         concat (map (\<lambda>(index, error). errorLines_ts h (length es) index error)
                   (zip [0 ..< length es] es)) @
         [[10] @ chalk h Gray rule80 @ [10]])"

text \<open>\<open>errorReportLines\<close> is the array \<open>report\<close> of \<open>generateErrorReport\<close> before the join.\<close>

definition errorReportLines :: "host \<Rightarrow> reporter \<Rightarrow> jsstring list" where
  "errorReportLines h r =
     (let totalErrorCount = length (fileErrors r)
      in [chalk h RedBold (totalPrefix @ toString totalErrorCount @ totalSuffix)] @
         concat (map (fileSection_ts h) (objectEntriesOfMap (fileErrors r))))"

definition generateErrorReport :: "host \<Rightarrow> reporter \<Rightarrow> jsstring" where
  "generateErrorReport h r = join [10] (errorReportLines h r)"

definition printReport :: "host \<Rightarrow> reporter \<Rightarrow> reporter" where
  "printReport h r =
     (if codeErrors r = [] then r\<lparr>console := console r @ [chalk h Green successText]\<rparr>
      else r\<lparr>console := console r @ [generateErrorReport h r]\<rparr>)"

subsection \<open>The earlier reporter, \<open>src/unnamed/part_000\<close>\<close>

text \<open>
  Its cache holds the lines of a file. \<open>createCodeFrame\<close> either returns a text or ends
  the process with \<open>process.exit(1)\<close>.
\<close>

datatype 'a completion = Returned 'a | Exited nat

definition getFileLines_p0 ::
  "host \<Rightarrow> fileCache \<times> jsstring list \<Rightarrow> jsstring \<Rightarrow> jsstring list \<times> fileCache \<times> jsstring list" where
  "getFileLines_p0 h st path =
     (let (cache, out) = st
      in case cache path of
           Some ls \<Rightarrow> (ls, cache, out)
         | None \<Rightarrow>
             (case readFileSync h path of
                Some text \<Rightarrow> (splitChar 10 text, cache(path \<mapsto> splitChar 10 text), out)
              | None \<Rightarrow>
                  ([], cache(path \<mapsto> []), out @ [chalk h Yellow (unreadableWarning @ path)])))"

definition createCodeFrame ::
  "host \<Rightarrow> fileCache \<times> jsstring list \<Rightarrow> jsstring \<Rightarrow> nat \<Rightarrow> nat \<Rightarrow> nat \<Rightarrow> jsstring option \<Rightarrow>
   jsstring completion \<times> fileCache \<times> jsstring list" where
  "createCodeFrame h st path ln col contextLines msg =
     (let (ls, cache, out) = getFileLines_p0 h st path;
          rawLines = join [10] ls
      in if rawLines = [] then (Returned (chalk h Gray unreadableText), cache, out)
         else (case codeFrameColumns h rawLines ln col contextLines
                      (case msg of
                         Some m \<Rightarrow> if m \<noteq> [] then Some (chalk h Red m) else None
                       | None \<Rightarrow> None) of
                 Some frame \<Rightarrow> (Returned frame, cache, out)
               | None \<Rightarrow> (Exited 1, cache, out @ [chalk h Red (frameFailedText @ path)])))"

section \<open>Running the markup checkers over files\<close>

text \<open>
  The fixed texts: the warning for a file that fails to parse (up to the path), the
  lines for a passed and a failed run, the line for a run that raised, and the message
  of the \<open>TypeError\<close> that \<open>getOptionsForNode\<close> raises on a namespaced tag.
\<close>

definition parseWarning :: jsstring where
  "parseWarning =
     [9888, 65039, 32, 32, 54028, 49905, 32, 50640, 47084, 32, 105, 110, 32]"

definition jsxPassText :: jsstring where
  "jsxPassText =
     [9989, 32, 74, 83, 88, 32, 54616, 46300, 53076, 46377, 32, 44160, 49324, 32,
      53685, 44284, 33]"

definition jsxFailText :: jsstring where
  "jsxFailText =
     [10060, 32, 74, 83, 88, 32, 54616, 46300, 53076, 46377, 32, 44160, 49324, 32,
      49892, 54056, 33]"

definition jsxErrorText :: jsstring where
  "jsxErrorText =
     [10060, 32, 74, 83, 88, 32, 44160, 49324, 32, 51473, 32, 50724, 47448, 32, 48156,
      49373, 58]"

definition typeErrorText :: jsstring where
  "typeErrorText = js ''Cannot read properties of undefined (reading '' @ [39] @
                   js ''toLowerCase'' @ [39] @ js '')''"

subsection \<open>jsx-hardcoded-checker.mjs\<close>

text \<open>
  The \<open>JSXElement\<close> visitor over the elements of one file. The result carries the
  message of an exception raised on the way, with the diagnostics pushed before it.
\<close>

fun visitElements_mjs ::
  "host \<Rightarrow> jsxOptions \<Rightarrow> jsstring \<Rightarrow> diagnostic list \<times> fileCache \<Rightarrow> jsxElement list \<Rightarrow>
   diagnostic list \<times> fileCache \<times> jsstring option" where
  "visitElements_mjs h opts path (errors, cache) [] = (errors, cache, None)"
| "visitElements_mjs h opts path (errors, cache) (n # ns) =
     (case getOptionsForNode_mjs opts n of
        None \<Rightarrow> (errors, cache, Some typeErrorText)
      | Some options \<Rightarrow>
          (let (childrenErrors, c1) = checkChildren_mjs h cache n options path;
               (propErrors, c2) = checkProps_mjs h c1 n options path
           in visitElements_mjs h opts path (errors @ childrenErrors @ propErrors, c2) ns))"

text \<open>
  \<open>checkFile\<close>: the diagnostics of one file, the reporter's cache afterwards and the lines
  written to the console; \<open>None\<close> when \<open>statSync\<close> or \<open>readFileSync\<close> throws, which
  \<open>checkFile\<close> does not catch.
\<close>

definition checkFile_mjs ::
  "host \<Rightarrow> jsxOptions \<Rightarrow> fileCache \<Rightarrow> jsstring \<Rightarrow>
   (diagnostic list \<times> fileCache \<times> jsstring list) option" where
  "checkFile_mjs h opts cache path =
     (case isDirectory h path of
        None \<Rightarrow> None
      | Some True \<Rightarrow> Some ([], cache, [])
      | Some False \<Rightarrow>
          (case readFileSync h path of
             None \<Rightarrow> None
           | Some code \<Rightarrow>
               (case parse h code of
                  Inl msg \<Rightarrow>
                    Some ([], cache, [chalk h Yellow (parseWarning @ path @ js '': '' @ msg)])
                | Inr elements \<Rightarrow>
                    (let (errors, cache', thrown) =
                           visitElements_mjs h opts path ([], cache) elements
                     in Some (errors, cache',
                              (case thrown of
                                 None \<Rightarrow> []
                               | Some msg \<Rightarrow>
                                   [chalk h Yellow (parseWarning @ path @ js '': '' @ msg)]))))))"

text \<open>
  The loop of \<open>checkJSXHardcoding\<close> over the files that \<open>glob\<close> found: \<open>allErrors\<close>, the
  cache and the console so far, and whether a file raised, which ends the loop.
\<close>

fun checkFiles_mjs ::
  "host \<Rightarrow> jsxOptions \<Rightarrow> diagnostic list \<times> fileCache \<times> jsstring list \<Rightarrow> jsstring list \<Rightarrow>
   bool \<times> diagnostic list \<times> fileCache \<times> jsstring list" where
  "checkFiles_mjs h opts (allErrors, cache, out) [] = (False, allErrors, cache, out)"
| "checkFiles_mjs h opts (allErrors, cache, out) (file # files) =
     (case checkFile_mjs h opts cache file of
        None \<Rightarrow> (True, allErrors, cache, out)
      | Some (errors, cache', lines) \<Rightarrow>
          checkFiles_mjs h opts (allErrors @ errors, cache', out @ lines) files)"

text \<open>The result of the loop without the lines written to the console.\<close>

definition withoutLog ::
  "bool \<times> diagnostic list \<times> fileCache \<times> jsstring list \<Rightarrow> bool \<times> diagnostic list \<times> fileCache" where
  "withoutLog st = (fst st, fst (snd st), fst (snd (snd st)))"

record run_mjs =
  verdict :: bool
  diagnostics :: "diagnostic list"
  logged :: "jsstring list"

text \<open>
  \<open>checkJSXHardcoding\<close> from the list of files on. The lines logged before the loop and
  the message of a raised exception are left out.
\<close>

definition checkJSXHardcoding :: "host \<Rightarrow> jsxOptions \<Rightarrow> fileCache \<Rightarrow> jsstring list \<Rightarrow> run_mjs" where
  "checkJSXHardcoding h opts cache files =
     (let (raised, allErrors, cache', out) = checkFiles_mjs h opts ([], cache, []) files
      in if raised then
           \<lparr>verdict = False, diagnostics = allErrors,
            logged = out @ [chalk h Red jsxErrorText]\<rparr>
         else if allErrors = [] then
           \<lparr>verdict = True, diagnostics = allErrors,
            logged = out @ [chalk h Green jsxPassText]\<rparr>
         else
           \<lparr>verdict = False, diagnostics = allErrors,
            logged = out @ [generateReport h allErrors]\<rparr>)"

subsection \<open>JSXHardcodeChecker, \<open>src/unnamed/part_003\<close>\<close>

text \<open>
  \<open>checkFile\<close> returns a result: \<open>Inl\<close> the message of the error caught around the parser
  and the traversal, \<open>Inr\<close> the findings. \<open>None\<close> is an exception of \<open>statSync\<close> or
  \<open>readFileSync\<close>, raised before the \<open>try\<close>.
\<close>

definition checkFile_ts ::
  "host \<Rightarrow> jsxOptions \<Rightarrow> jsstring \<Rightarrow> (jsstring + codeError list) option" where
  "checkFile_ts h opts path =
     (case isDirectory h path of
        None \<Rightarrow> None
      | Some True \<Rightarrow> Some (Inr [])
      | Some False \<Rightarrow>
          (case readFileSync h path of
             None \<Rightarrow> None
           | Some code \<Rightarrow>
               (case parse h code of
                  Inl msg \<Rightarrow> Some (Inl msg)
                | Inr elements \<Rightarrow>
                    Some (Inr (concat (map (\<lambda>n.
                      (let options = getOptionsForNode_ts opts n
                       in checkChildren_ts n options @ checkProps_ts n options))
                      elements))))))"

text \<open>
  How the loop of \<open>checkJSXHardcode\<close> ends: it went through every file, it returned at a
  file whose result was an error, or an exception left it.
\<close>

datatype ending = Finished | Returned_early | Raised

fun checkFiles_ts ::
  "host \<Rightarrow> jsxOptions \<Rightarrow> codeError list \<times> reporter \<Rightarrow> jsstring list \<Rightarrow>
   ending \<times> codeError list \<times> reporter" where
  "checkFiles_ts h opts (allErrors, r) [] = (Finished, allErrors, r)"
| "checkFiles_ts h opts (allErrors, r) (file # files) =
     (case checkFile_ts h opts file of
        None \<Rightarrow> (Raised, allErrors, r)
      | Some (Inl msg) \<Rightarrow>
          (Returned_early, allErrors,
           r\<lparr>console := console r @
                [chalk h Yellow (parseWarning @ file @ js '': '' @ msg)]\<rparr>)
      | Some (Inr errors) \<Rightarrow>
          checkFiles_ts h opts
            (allErrors @ errors, foldl (\<lambda>r' error. addCodeError h r' file error) r errors)
            files)"

text \<open>
  \<open>checkJSXHardcode\<close> from the list of files on: how the loop ended, \<open>allErrors\<close>, and the
  reporter with the console. The lines logged before the loop are left out.
\<close>

definition checkJSXHardcode ::
  "host \<Rightarrow> jsxOptions \<Rightarrow> reporter \<Rightarrow> jsstring list \<Rightarrow> ending \<times> codeError list \<times> reporter" where
  "checkJSXHardcode h opts r files =
     (let (ending, allErrors, r') = checkFiles_ts h opts ([], r) files
      in case ending of
           Finished \<Rightarrow>
             if allErrors = [] then
               (Finished, allErrors, r'\<lparr>console := console r' @ [chalk h Green jsxPassText]\<rparr>)
             else
               (Finished, allErrors,
                printReport h (r'\<lparr>console := console r' @ [chalk h Red jsxFailText]\<rparr>))
         | _ \<Rightarrow> (ending, allErrors, r'))"

section \<open>Example inputs\<close>

text \<open>
  \<open>Message.error({ "title": "Error" })\<close> on the first line of a file: the key of the
  property is written as a string, which the parser gives as a \<open>StringLiteral\<close> node.
\<close>

definition quotedKeyCall :: node where
  "quotedKeyCall =
     CallExpression (Some (1, 0))
       (MemberExpression (Some (1, 0)) (Identifier (Some (1, 0)) (js ''Message''))
          (Identifier (Some (1, 8)) (js ''error'')))
       [ObjectExpression (Some (1, 14))
          [ObjectProperty (Some (1, 16)) (StringLiteral (Some (1, 16)) (js ''title''))
             (StringLiteral (Some (1, 25)) (js ''Error''))]]"

text \<open>\<open>Message.error({ title: "Error", description: t('d') })\<close>, with identifier keys.\<close>

definition titleDescriptionCall :: node where
  "titleDescriptionCall =
     CallExpression (Some (1, 0))
       (MemberExpression (Some (1, 0)) (Identifier (Some (1, 0)) (js ''Message''))
          (Identifier (Some (1, 8)) (js ''error'')))
       [ObjectExpression (Some (1, 14))
          [ObjectProperty (Some (1, 16)) (Identifier (Some (1, 16)) (js ''title''))
             (StringLiteral (Some (1, 23)) (js ''Error'')),
           ObjectProperty (Some (1, 32)) (Identifier (Some (1, 32)) (js ''description''))
             (CallExpression (Some (1, 45)) (Identifier (Some (1, 45)) (js ''t''))
                [StringLiteral (Some (1, 47)) (js ''d'')])]]"

text \<open>
  \<open><button title="Click me">{t('label')}</button>\<close> on the first line of a file. The
  value of the attribute is a \<open>StringLiteral\<close> node at column 14.
\<close>

definition buttonElement :: jsxElement where
  "buttonElement =
     \<lparr>elementName = JSXIdentifier (js ''button''),
      attributes =
        [JSXAttribute (Some (1, 8)) (Some (js ''title''))
           (Some (StringLiteral (Some (1, 14)) (js ''Click me'')))],
      children =
        [JSXExpressionContainer (Some (1, 25))
           (CallExpression (Some (1, 26)) (Identifier (Some (1, 26)) (js ''t''))
              [StringLiteral (Some (1, 28)) (js ''label'')])]\<rparr>"

text \<open>\<open><p>Hello</p>\<close>, and a host with that file and a file that does not parse.\<close>

definition helloElement :: jsxElement where
  "helloElement =
     \<lparr>elementName = JSXIdentifier (js ''p''), attributes = [],
      children = [JSXText (Some (1, 3)) (js ''Hello'')]\<rparr>"

definition exampleHost :: host where
  "exampleHost =
     \<lparr>chalk = (\<lambda>_ s. s),
      readFileSync = (\<lambda>p. if p = js ''src/Broken.tsx'' then Some (js ''<p>'')
                           else if p = js ''src/App.tsx'' then Some (js ''<p>Hello</p>'')
                           else None),
      isDirectory = (\<lambda>p. if p = js ''src/Broken.tsx'' \<or> p = js ''src/App.tsx''
                          then Some False else None),
      parse = (\<lambda>code. if code = js ''<p>Hello</p>'' then Inr [helloElement]
                       else Inl (js ''Unexpected token'')),
      regExpTest = (\<lambda>_ _. False),
      codeFrameColumns = (\<lambda>_ _ _ _ _. None)\<rparr>"

text \<open>The later TypeScript reporter after two findings of one file were added.\<close>

definition twoErrors :: reporter where
  "twoErrors =
     addCodeError exampleHost
       (addCodeError exampleHost newReporter (js ''src/App.tsx'')
          (childCodeError (JSXText (Some (1, 3)) (js ''Hello''))))
       (js ''src/App.tsx'') (childCodeError (JSXText (Some (2, 3)) (js ''World'')))"

text \<open>
  A child of a markup element that is literal text: a \<open>JSXText\<close> that is not white space
  only, or a template literal in an expression container.
\<close>

definition isMarkupText :: "node \<Rightarrow> bool" where
  "isMarkupText c =
     (case c of
        JSXText _ v \<Rightarrow> trim v \<noteq> []
      | JSXExpressionContainer _ e \<Rightarrow> (case e of TemplateLiteral _ _ _ \<Rightarrow> True | _ \<Rightarrow> False)
      | _ \<Rightarrow> False)"

section \<open>Properties of the notification-call checker\<close>

subsection \<open>Auxiliary facts\<close>

lemma dropWhile_all: "(\<forall>x\<in>set (dropWhile P v). P x) \<longleftrightarrow> (\<forall>x\<in>set v. P x)"
  by (induction v) auto

lemma trim_empty_iff: "trim v = [] \<longleftrightarrow> list_all isWhiteSpace v"
  by (simp add: trim_def dropWhile_all list_all_iff)

text \<open>Joining the pieces of a split gives the text back.\<close>

lemma splitChar_nonempty: "splitChar sep s \<noteq> []"
  by (induction s) (auto split: list.splits)

lemma join_Cons: "ys \<noteq> [] \<Longrightarrow> join sep (x # ys) = x @ sep @ join sep ys"
  by (cases ys) simp_all

lemma join_Cons_head: "join sep ((c # t) # ts) = c # join sep (t # ts)"
  by (cases ts) simp_all

lemma join_splitChar: "join [sep] (splitChar sep s) = s"
proof (induction s)
  case Nil
  then show ?case by simp
next
  case (Cons c cs)
  show ?case
  proof (cases "c = sep")
    case True
    with Cons show ?thesis by (simp add: join_Cons splitChar_nonempty)
  next
    case False
    obtain t ts where s: "splitChar sep cs = t # ts"
      using splitChar_nonempty [of sep cs] by (cases "splitChar sep cs") auto
    with False Cons show ?thesis by (simp add: join_Cons_head)
  qed
qed


lemmas rx_defs = rx_t_call_def rx_i18n_def rx_placeholder_def rx_keyword_def rx_digits_def
  rx_empty_def rx_console_def rx_env_def rx_import_def rx_require_def dropQuote_def
  startsWith_def isLineTerminator_def

lemmas allow_defs = isAllowedPattern_def defaultOptions_def defaultAllowPatterns_def
  patternMatches_def rx_defs trim_def isWhiteSpace_def

lemmas key_defs = suggestKey_def isKeyChar_def isWhiteSpace_def isHangul_def trim_def
  camelWord_def toLowerCase_def toUpperCase_def getContextPrefix_def upt_rec

text \<open>The finding inside a diagnostic is the finding that was formatted.\<close>

lemma formatError_truncate: "finding.truncate (fst (formatError h c e path)) = e"
  by (cases e)
     (simp add: formatError_def finding.defs codeError.defs diagnostic.defs split: prod.splits)

lemma truncate_fields:
  "suggestion (finding.truncate d) = suggestion d"
  "line (finding.truncate d) = line d"
  "column (finding.truncate d) = column d"
  "message (finding.truncate d) = message d"
  "type (finding.truncate d) = type d"
  "value' (finding.truncate d) = value' d"
  "propertyName (finding.truncate d) = propertyName d"
  "functionName (finding.truncate d) = functionName d"
  by (simp_all add: finding.defs)

lemma foldl_static_length:
  "foldl (\<lambda>total quasi. total + length quasi) n quasis = n + sum_list (map length quasis)"
  by (induction quasis arbitrary: n) auto

lemma hasSignificantStaticContent_iff:
  "hasSignificantStaticContent (TemplateLiteral l quasis exprs) \<longleftrightarrow>
     MIN_STATIC_LENGTH \<le> sum_list (map length quasis)"
  by (simp add: hasSignificantStaticContent_def foldl_static_length)

text \<open>
  The findings of the \<open>CallExpression\<close> visitor do not depend on the reporter's cache:
  they are the findings of the hardcoded arguments, one after the other.
\<close>

lemma property_fold:
  "map finding.truncate
     (fst (foldl (\<lambda>(errors, c) prop.
                   if isFlaggedProperty opts prop
                   then (let (enhancedError, c') =
                               formatError h c (objectPropertyErrorInfo prop fn) path
                         in (errors @ [enhancedError], c'))
                   else (errors, c)) (acc, cache) props)) =
   map finding.truncate acc @ propertyFindings opts fn props"
proof (induction props arbitrary: acc cache)
  case Nil
  then show ?case by (simp add: propertyFindings_def)
next
  case (Cons p ps)
  show ?case
  proof (cases "isFlaggedProperty opts p")
    case True
    obtain d c' where f: "formatError h cache (objectPropertyErrorInfo p fn) path = (d, c')"
      by (cases "formatError h cache (objectPropertyErrorInfo p fn) path")
    have "finding.truncate d = objectPropertyErrorInfo p fn"
      using formatError_truncate [of h cache "objectPropertyErrorInfo p fn" path] f by simp
    with True f Cons.IH [of "acc @ [d]" c'] show ?thesis
      by (simp add: propertyFindings_def)
  next
    case False
    with Cons.IH [of acc cache] show ?thesis by (simp add: propertyFindings_def)
  qed
qed

lemma getObjectPropertyErrors_findings:
  "map finding.truncate
     (fst (getObjectPropertyErrors h opts cache (ObjectExpression l props) fn path)) =
   propertyFindings opts fn props"
  using property_fold [where opts = opts and h = h and fn = fn and path = path
      and acc = "[]" and cache = cache and props = props]
  by (simp add: getObjectPropertyErrors_def)

lemma argument_fold:
  "map finding.truncate
     (fst (foldl (\<lambda>(errors, c) arg.
                    (case arg of
                       ObjectExpression _ _ \<Rightarrow>
                         (let (objectErrors, c') =
                                getObjectPropertyErrors h opts c arg calleeText path
                          in (errors @ objectErrors, c'))
                     | _ \<Rightarrow>
                         (let (enhancedError, c') =
                                formatError h c (toastErrorInfo arg calleeText) path
                          in (errors @ [enhancedError], c')))) (acc, cache) args)) =
   map finding.truncate acc @ concat (map (argumentFindings opts calleeText) args)"
proof (induction args arbitrary: acc cache)
  case Nil
  then show ?case by simp
next
  case (Cons a as)
  show ?case
  proof (cases "\<exists>l props. a = ObjectExpression l props")
    case True
    then obtain l props where a: "a = ObjectExpression l props" by blast
    obtain ds c' where g: "getObjectPropertyErrors h opts cache a calleeText path = (ds, c')"
      by (cases "getObjectPropertyErrors h opts cache a calleeText path")
    have "map finding.truncate ds = propertyFindings opts calleeText props"
      using getObjectPropertyErrors_findings [of h opts cache l props calleeText path] g a
      by simp
    with a g Cons.IH [of "acc @ ds" c'] show ?thesis
      by (simp add: argumentFindings_def)
  next
    case False
    obtain d c' where f: "formatError h cache (toastErrorInfo a calleeText) path = (d, c')"
      by (cases "formatError h cache (toastErrorInfo a calleeText) path")
    have t: "finding.truncate d = toastErrorInfo a calleeText"
      using formatError_truncate [of h cache "toastErrorInfo a calleeText" path] f by simp
    from False have af: "argumentFindings opts calleeText a = [toastErrorInfo a calleeText]"
      by (cases a) (simp_all add: argumentFindings_def)
    from False f have step:
      "(case a of
          ObjectExpression _ _ \<Rightarrow>
            (let (objectErrors, c') = getObjectPropertyErrors h opts cache a calleeText path
             in (acc @ objectErrors, c'))
        | _ \<Rightarrow>
            (let (enhancedError, c') = formatError h cache (toastErrorInfo a calleeText) path
             in (acc @ [enhancedError], c'))) = (acc @ [d], c')"
      by (cases a) simp_all
    show ?thesis
      using Cons.IH [of "acc @ [d]" c'] step t af by simp
  qed
qed

lemma visitCallExpression_findings:
  "map finding.truncate
     (fst (visitCallExpression h opts cache path (CallExpression l callee args))) =
   (if isToastFunction h opts (getCalleeText callee)
    then concat (map (argumentFindings opts (getCalleeText callee))
                  (findHardcodedArguments opts args))
    else [])"
  using argument_fold [where h = h and opts = opts and calleeText = "getCalleeText callee"
      and path = path and acc = "[]" and cache = cache
      and args = "findHardcodedArguments opts args"]
  by (simp add: visitCallExpression_def Let_def)

lemma isToastFunction_exact:
  assumes "f \<in> set (toastFunctions opts)" and "42 \<notin> set f"
  shows "isToastFunction h opts f"
  using assms by (auto simp: isToastFunction_def list_ex_iff)

subsection \<open>The Allow-List Matcher\<close>

text \<open>
  Claim C3. For every string, \<open>isAllowedPattern\<close> returns true when the string is empty or
  consists of white space only; for every other string it returns true if and only if
  the string matches at least one of the configured allow-patterns (a regular expression
  by \<open>test\<close>, a string pattern by \<open>includes\<close>), and so false when it matches none.
\<close>

theorem isAllowedPattern_decides_by_allow_list:
  "(list_all isWhiteSpace v \<longrightarrow> isAllowedPattern opts v) \<and>
   (\<not> list_all isWhiteSpace v \<longrightarrow>
      (isAllowedPattern opts v \<longleftrightarrow> (\<exists>p \<in> set (allowPatterns opts). patternMatches p v)))"
  by (auto simp: isAllowedPattern_def trim_empty_iff list_ex_iff)

theorem isAllowedPattern_decides_by_allow_list_witness:
  "list_all isWhiteSpace (js ''  '') \<and> isAllowedPattern defaultOptions (js ''  '') \<and>
   \<not> list_all isWhiteSpace (js ''t('d')'') \<and>
   (\<exists>p \<in> set (allowPatterns defaultOptions). patternMatches p (js ''t('d')'')) \<and>
   isAllowedPattern defaultOptions (js ''t('d')'') \<and>
   \<not> list_all isWhiteSpace (js ''Error'') \<and>
   \<not> (\<exists>p \<in> set (allowPatterns defaultOptions). patternMatches p (js ''Error'')) \<and>
   \<not> isAllowedPattern defaultOptions (js ''Error'')"
  using isAllowedPattern_decides_by_allow_list [of "js ''  ''" defaultOptions]
    isAllowedPattern_decides_by_allow_list [of "js ''t('d')''" defaultOptions]
    isAllowedPattern_decides_by_allow_list [of "js ''Error''" defaultOptions]
  by (simp add: defaultOptions_def defaultAllowPatterns_def patternMatches_def rx_defs
        isWhiteSpace_def)

subsection \<open>Templates with interpolations\<close>

text \<open>
  Claim C2. A template literal with at least one interpolation is hardcoded if and only
  if the lengths of its static segments sum to at least the threshold, which the source
  fixes as \<open>MIN_STATIC_LENGTH = 3\<close>. As the argument of a notification call it yields
  exactly one finding when the sum reaches the threshold and none when it is below.
\<close>

theorem mixed_template_flagged_iff_static_length:
  assumes "exprs \<noteq> []"
  shows "(isHardcodedValue opts (TemplateLiteral l quasis exprs) \<longleftrightarrow>
            MIN_STATIC_LENGTH \<le> sum_list (map length quasis)) \<and>
         (isToastFunction h opts (getCalleeText callee) \<longrightarrow>
            map finding.truncate
              (fst (visitCallExpression h opts cache path
                      (CallExpression cl callee [TemplateLiteral l quasis exprs]))) =
            (if MIN_STATIC_LENGTH \<le> sum_list (map length quasis)
             then [toastErrorInfo (TemplateLiteral l quasis exprs) (getCalleeText callee)]
             else []))"
  using assms
  by (simp add: visitCallExpression_findings findHardcodedArguments_def
        hasSignificantStaticContent_iff argumentFindings_def)

theorem mixed_template_flagged_iff_static_length_witness:
  "[Identifier None (js ''name'')] \<noteq> [] \<and>
   isToastFunction plainHost defaultOptions (getCalleeText (Identifier None (js ''confirm''))) \<and>
   isHardcodedValue defaultOptions
     (TemplateLiteral None [js ''Are you sure you want to delete '', js ''?'']
        [Identifier None (js ''name'')]) \<and>
   length (fst (visitCallExpression plainHost defaultOptions Map.empty (js ''src/App.tsx'')
           (CallExpression None (Identifier None (js ''confirm''))
              [TemplateLiteral None [js ''Are you sure you want to delete '', js ''?'']
                 [Identifier None (js ''name'')]]))) = 1 \<and>
   \<not> isHardcodedValue defaultOptions
     (TemplateLiteral None [js ''#'', []] [Identifier None (js ''id'')]) \<and>
   fst (visitCallExpression plainHost defaultOptions Map.empty (js ''src/App.tsx'')
           (CallExpression None (Identifier None (js ''confirm''))
              [TemplateLiteral None [js ''#'', []] [Identifier None (js ''id'')]])) = []"
proof -
  have e: "[Identifier None (js ''name'')] \<noteq> []"
    and e': "[Identifier None (js ''id'')] \<noteq> []"
    by simp_all
  have t: "isToastFunction plainHost defaultOptions
             (getCalleeText (Identifier None (js ''confirm'')))"
    by (simp add: isToastFunction_def defaultOptions_def)
  note a = mixed_template_flagged_iff_static_length [OF e, of defaultOptions None
      "[js ''Are you sure you want to delete '', js ''?'']" plainHost
      "Identifier None (js ''confirm'')" Map.empty "js ''src/App.tsx''" None]
  note b = mixed_template_flagged_iff_static_length [OF e', of defaultOptions None
      "[js ''#'', []]" plainHost
      "Identifier None (js ''confirm'')" Map.empty "js ''src/App.tsx''" None]
  from a t have a1: "isHardcodedValue defaultOptions
        (TemplateLiteral None [js ''Are you sure you want to delete '', js ''?'']
           [Identifier None (js ''name'')])"
    and a2: "length (map finding.truncate
        (fst (visitCallExpression plainHost defaultOptions Map.empty (js ''src/App.tsx'')
           (CallExpression None (Identifier None (js ''confirm''))
              [TemplateLiteral None [js ''Are you sure you want to delete '', js ''?'']
                 [Identifier None (js ''name'')]])))) = 1"
    by (simp_all add: MIN_STATIC_LENGTH_def)
  from b t have b1: "\<not> isHardcodedValue defaultOptions
        (TemplateLiteral None [js ''#'', []] [Identifier None (js ''id'')])"
    and b2: "map finding.truncate
        (fst (visitCallExpression plainHost defaultOptions Map.empty (js ''src/App.tsx'')
           (CallExpression None (Identifier None (js ''confirm''))
              [TemplateLiteral None [js ''#'', []] [Identifier None (js ''id'')]]))) = []"
    by (simp_all add: MIN_STATIC_LENGTH_def)
  from e t a1 a2 b1 b2 show ?thesis by simp
qed

subsection \<open>The suggested key of a notification call\<close>

text \<open>
  Claim C6. For the call \<open>Message.error("Network error")\<close>, checked with a list of
  notification calls that contains \<open>Message.error\<close> and with allow-patterns that do not
  exempt the text (the default ones do not), the visitor yields exactly one finding, and
  its suggestion is exactly
  \<open>Message.error(t('error.networkError'))\<close>: the prefix \<open>error\<close> that the fixed table
  gives for \<open>Message.error\<close>, a dot, and the camel-cased cleaned value \<open>networkError\<close>.
\<close>

theorem network_error_suggestion:
  assumes "js ''Message.error'' \<in> set (toastFunctions opts)"
    and "\<not> isAllowedPattern opts (js ''Network error'')"
  shows "\<exists>d. fst (visitCallExpression h opts cache path
                  (CallExpression cl
                     (MemberExpression ml (Identifier ol (js ''Message''))
                        (Identifier pl (js ''error'')))
                     [StringLiteral al (js ''Network error'')])) = [d] \<and>
             suggestion d = Some (js ''Message.error(t('error.networkError'))'') \<and>
             getContextPrefix (js ''Message.error'') = js ''error'' \<and>
             suggestKey (js ''Message.error'') (js ''Network error'') =
               js ''error'' @ js ''.'' @ js ''networkError''"
proof -
  let ?arg = "StringLiteral al (js ''Network error'')"
  let ?callee = "MemberExpression ml (Identifier ol (js ''Message''))
                   (Identifier pl (js ''error''))"
  have callee: "getCalleeText ?callee = js ''Message.error''"
    by simp
  have toast: "isToastFunction h opts (js ''Message.error'')"
    using assms(1) by (rule isToastFunction_exact) simp
  have hard: "isHardcodedValue opts ?arg"
    using assms(2) by simp
  have key: "suggestKey (js ''Message.error'') (js ''Network error'') =
               js ''error.networkError''"
    by (simp add: key_defs)
  have "map finding.truncate
          (fst (visitCallExpression h opts cache path (CallExpression cl ?callee [?arg]))) =
        [toastErrorInfo ?arg (js ''Message.error'')]"
    unfolding visitCallExpression_findings callee
    using toast hard by (simp add: findHardcodedArguments_def argumentFindings_def)
  then obtain d
    where d: "fst (visitCallExpression h opts cache path (CallExpression cl ?callee [?arg])) =
                [d]"
      and t: "finding.truncate d = toastErrorInfo ?arg (js ''Message.error'')"
    by (auto simp: map_eq_Cons_conv)
  have "suggestion d = suggestion (toastErrorInfo ?arg (js ''Message.error''))"
    using t truncate_fields(1) [of d] by simp
  also have "\<dots> = Some (js ''Message.error(t('error.networkError'))'')"
    using key by (simp add: toastErrorInfo_def)
  finally have s: "suggestion d = Some (js ''Message.error(t('error.networkError'))'')" .
  have p: "getContextPrefix (js ''Message.error'') = js ''error''"
    by (simp add: getContextPrefix_def)
  from d s p key show ?thesis by simp
qed

theorem network_error_suggestion_witness:
  "js ''Message.error'' \<in> set (toastFunctions defaultOptions) \<and>
   \<not> isAllowedPattern defaultOptions (js ''Network error'') \<and>
   (\<exists>d. fst (visitCallExpression plainHost defaultOptions Map.empty (js ''src/App.tsx'')
             (CallExpression (Some (1, 0))
                (MemberExpression (Some (1, 0)) (Identifier (Some (1, 0)) (js ''Message''))
                   (Identifier (Some (1, 8)) (js ''error'')))
                [StringLiteral (Some (1, 14)) (js ''Network error'')])) = [d] \<and>
        suggestion d = Some (js ''Message.error(t('error.networkError'))''))"
proof -
  have a: "js ''Message.error'' \<in> set (toastFunctions defaultOptions)"
    by (simp add: defaultOptions_def)
  have b: "\<not> isAllowedPattern defaultOptions (js ''Network error'')"
    by (simp add: allow_defs)
  from network_error_suggestion [OF a b, of plainHost Map.empty "js ''src/App.tsx''"
      "Some (1, 0)" "Some (1, 0)" "Some (1, 0)" "Some (1, 8)" "Some (1, 14)"] a b
  show ?thesis by blast
qed

subsection \<open>Object literal arguments\<close>

text \<open>
  Claim C1, evaluated at \<open>Message.error({ "title": "Error" })\<close>. \<open>Message.error\<close> is a
  configured notification call, the key \<open>title\<close> is a user-facing property name and the
  value \<open>"Error"\<close> is hardcoded, yet the visitor yields no finding: \<open>isUserFacingProperty\<close>
  accepts a key of type \<open>Identifier\<close> or \<open>Literal\<close> only, and the key written as a string
  is a \<open>StringLiteral\<close>.
\<close>

theorem quoted_key_property_not_flagged:
  "isToastFunction plainHost defaultOptions (js ''Message.error'') \<and>
   js ''title'' \<in> set (objectProperties defaultOptions) \<and>
   keyName (StringLiteral (Some (1, 16)) (js ''title'')) = Some (js ''title'') \<and>
   isHardcodedValue defaultOptions (StringLiteral (Some (1, 25)) (js ''Error'')) \<and>
   visitCallExpression plainHost defaultOptions Map.empty (js ''src/App.tsx'') quotedKeyCall =
     ([], Map.empty)"
  by (simp add: quotedKeyCall_def visitCallExpression_def findHardcodedArguments_def
        isToastFunction_def isUserFacingProperty_def keyName_def allow_defs)

text \<open>
  With identifier keys the visitor does expand an object literal argument: the findings
  are those of the properties whose key is user-facing and whose value is hardcoded, one
  each, whether or not the argument passes \<open>findHardcodedArguments\<close>. The argument
  \<open>{ title: "Error", description: t('d') }\<close> yields exactly one finding, for \<open>title\<close>.
\<close>

lemma flagged_implies_hardcoded:
  assumes "isFlaggedProperty opts p" and "p \<in> set props"
  shows "hasHardcodedObjectProperties opts (ObjectExpression l props)"
proof -
  from assms(1) have "case p of
          ObjectProperty _ k v \<Rightarrow> isUserFacingProperty opts p \<and> isHardcodedValue opts v
        | SpreadElement _ a \<Rightarrow> isHardcodedValue opts a
        | _ \<Rightarrow> False"
    by (cases p) (simp_all add: isFlaggedProperty_def)
  with assms(2) show ?thesis by (auto simp: list_ex_iff)
qed

lemma object_argument_is_expanded:
  assumes "isToastFunction h opts (getCalleeText callee)"
  shows "map finding.truncate
           (fst (visitCallExpression h opts cache path
                   (CallExpression cl callee [ObjectExpression ol props]))) =
         propertyFindings opts (getCalleeText callee) props"
proof (cases "hasHardcodedObjectProperties opts (ObjectExpression ol props)")
  case True
  with assms show ?thesis
    by (simp add: visitCallExpression_findings findHardcodedArguments_def argumentFindings_def)
next
  case False
  then have "filter (isFlaggedProperty opts) props = []"
    using flagged_implies_hardcoded [of opts _ props ol] by (auto simp: filter_empty_conv)
  with False assms show ?thesis
    by (simp add: visitCallExpression_findings findHardcodedArguments_def propertyFindings_def)
qed

lemma title_description_example:
  "map (\<lambda>d. (propertyName d, value' d, line d, column d))
     (fst (visitCallExpression plainHost defaultOptions Map.empty (js ''src/App.tsx'')
             titleDescriptionCall)) =
   [(Some (js ''title''), js ''Error'', 1, 23)]"
proof -
  have t: "isToastFunction plainHost defaultOptions (js ''Message.error'')"
    by (simp add: isToastFunction_def defaultOptions_def)
  have "map finding.truncate
          (fst (visitCallExpression plainHost defaultOptions Map.empty (js ''src/App.tsx'')
             titleDescriptionCall)) =
        propertyFindings defaultOptions (js ''Message.error'')
          [ObjectProperty (Some (1, 16)) (Identifier (Some (1, 16)) (js ''title''))
             (StringLiteral (Some (1, 23)) (js ''Error'')),
           ObjectProperty (Some (1, 32)) (Identifier (Some (1, 32)) (js ''description''))
             (CallExpression (Some (1, 45)) (Identifier (Some (1, 45)) (js ''t''))
                [StringLiteral (Some (1, 47)) (js ''d'')])]"
    unfolding titleDescriptionCall_def
    using t object_argument_is_expanded [of plainHost defaultOptions
        "MemberExpression (Some (1, 0)) (Identifier (Some (1, 0)) (js ''Message''))
          (Identifier (Some (1, 8)) (js ''error''))"]
    by simp
  also have "\<dots> = [objectPropertyErrorInfo
          (ObjectProperty (Some (1, 16)) (Identifier (Some (1, 16)) (js ''title''))
             (StringLiteral (Some (1, 23)) (js ''Error''))) (js ''Message.error'')]"
    by (simp add: propertyFindings_def isFlaggedProperty_def isUserFacingProperty_def
          allow_defs)
  finally have "map ((\<lambda>e. (propertyName e, value' e, line e, column e)) \<circ> finding.truncate)
          (fst (visitCallExpression plainHost defaultOptions Map.empty (js ''src/App.tsx'')
             titleDescriptionCall)) =
        [(Some (js ''title''), js ''Error'', 1, 23)]"
    unfolding map_map [symmetric]
    by (simp add: objectPropertyErrorInfo_def keyName_def lineOf_def columnOf_def orElse_def)
  then show ?thesis by (simp add: comp_def truncate_fields)
qed


subsection \<open>Formatting a finding\<close>

lemma createCodeContext_cache:
  "snd (createCodeContext h cache path ln col k) = snd (getFileLines h cache path)"
  by (simp add: createCodeContext_def Let_def split: prod.splits)

lemma formatError_eq:
  "formatError h cache error path =
     (codeError.extend
        (finding.extend error
           (codeError.fields
              (generateCodeSnippet h
                 (fst (createCodeContext h cache path (line error) (column error) 2))
                 (column error))))
        (diagnostic.fields path
           (fst (createCodeContext h cache path (line error) (column error) 2))),
      snd (getFileLines h cache path))"
  using createCodeContext_cache [of h cache path "line error" "column error" 2]
  by (cases "createCodeContext h cache path (line error) (column error) 2")
     (simp add: formatError_def)

text \<open>
  Claim C10. \<open>formatError\<close> returns a new object with the fields \<open>line\<close>, \<open>column\<close>,
  \<open>message\<close>, \<open>type\<close>, \<open>value\<close> and \<open>suggestion\<close> of the finding it was given (indeed with
  every field of it: truncated to a finding, the result is the input), to which it adds
  \<open>filePath\<close>, \<open>context\<close> and \<open>codeSnippet\<close>. The finding is passed by value and is no part
  of the state: the only state \<open>formatError\<close> changes is the reporter's file cache, as
  \<open>getFileLines\<close> does.
\<close>

theorem formatError_keeps_finding:
  "line (fst (formatError h cache error path)) = line error \<and>
   column (fst (formatError h cache error path)) = column error \<and>
   message (fst (formatError h cache error path)) = message error \<and>
   type (fst (formatError h cache error path)) = type error \<and>
   value' (fst (formatError h cache error path)) = value' error \<and>
   suggestion (fst (formatError h cache error path)) = suggestion error \<and>
   finding.truncate (fst (formatError h cache error path)) = error \<and>
   filePath (fst (formatError h cache error path)) = path \<and>
   context' (fst (formatError h cache error path)) =
     fst (createCodeContext h cache path (line error) (column error) 2) \<and>
   codeSnippet (fst (formatError h cache error path)) =
     generateCodeSnippet h
       (fst (createCodeContext h cache path (line error) (column error) 2)) (column error) \<and>
   snd (formatError h cache error path) = snd (getFileLines h cache path)"
  by (cases error)
     (simp add: formatError_eq finding.defs codeError.defs diagnostic.defs)

section \<open>Properties of the markup checkers\<close>

lemmas policy_defs = allowStringsOf_def allowNumbersOf_def checkPropsOf_def domPolicy_def
  inCheckProps_def

lemma children_fold:
  "map finding.truncate
     (fst (foldl (\<lambda>(errors, c) child.
              if isInvalidContent_mjs (Some child) strs nums
              then (let (enhancedError, c') = formatError h c (childErrorInfo child) path
                    in (errors @ [enhancedError], c'))
              else (errors, c)) (acc, cache) cs)) =
   map finding.truncate acc @
   map childErrorInfo (filter (\<lambda>child. isInvalidContent_mjs (Some child) strs nums) cs)"
proof (induction cs arbitrary: acc cache)
  case Nil
  then show ?case by simp
next
  case (Cons x xs)
  show ?case
  proof (cases "isInvalidContent_mjs (Some x) strs nums")
    case True
    obtain d c' where f: "formatError h cache (childErrorInfo x) path = (d, c')"
      by (cases "formatError h cache (childErrorInfo x) path")
    have "finding.truncate d = childErrorInfo x"
      using formatError_truncate [of h cache "childErrorInfo x" path] f by simp
    with True f Cons.IH [of "acc @ [d]" c'] show ?thesis by simp
  next
    case False
    with Cons.IH [of acc cache] show ?thesis by simp
  qed
qed

lemma checkChildren_mjs_findings:
  "map finding.truncate (fst (checkChildren_mjs h cache n p path)) =
     map childErrorInfo
       (filter (\<lambda>child. isInvalidContent_mjs (Some child) (allowStringsOf p) (allowNumbersOf p))
          (children n))"
  using children_fold [where acc = "[]" and cache = cache and cs = "children n" and h = h
      and path = path and strs = "allowStringsOf p" and nums = "allowNumbersOf p"]
  by (simp add: checkChildren_mjs_def)

subsection \<open>The markup text check\<close>

text \<open>
  Claim C4 as stated fails: the text child \<open>123\<close> of \<open><p>123</p>\<close> is flagged under the
  default policy although the Allow-List Matcher allows the value \<open>123\<close>. The markup
  checker has no allow-list.
\<close>

theorem allow_listed_text_is_flagged:
  "isMarkupText (JSXText (Some (1, 3)) (js ''123'')) \<and>
   isInvalidContent_mjs (Some (JSXText (Some (1, 3)) (js ''123'')))
     (allowStringsOf (policy.truncate defaultJSXOptions))
     (allowNumbersOf (policy.truncate defaultJSXOptions)) \<and>
   isAllowedPattern defaultOptions (js ''123'') \<and>
   length (fst (checkChildren_mjs plainHost Map.empty
     \<lparr>elementName = JSXIdentifier (js ''p''), attributes = [],
      children = [JSXText (Some (1, 3)) (js ''123'')]\<rparr>
     (policy.truncate defaultJSXOptions) (js ''src/App.tsx''))) = 1"
  by (simp add: defaultJSXOptions_def policy.defs policy_defs checkChildren_mjs_def
        isMarkupText_def allow_defs formatError_def createCodeContext_def split: prod.splits)

text \<open>
  Claim C4, amended. A direct child that is literal text (a \<open>JSXText\<close> that is not white
  space only, or a template literal in an expression container) is flagged if and only
  if \<open>allowStrings\<close> is false in the element's resolved policy, where a policy without
  the field counts as false; no allow-list is consulted. The findings of \<open>checkChildren\<close>
  are those of the flagged children, one each, in order.
\<close>

theorem markup_text_flagged_iff_strings_disallowed:
  assumes "isMarkupText c"
  shows "(isInvalidContent_mjs (Some c) (allowStringsOf p) (allowNumbersOf p) \<longleftrightarrow>
            \<not> allowStringsOf p) \<and>
         map finding.truncate (fst (checkChildren_mjs h cache n p path)) =
           map childErrorInfo
             (filter (\<lambda>child. isInvalidContent_mjs (Some child) (allowStringsOf p)
                                (allowNumbersOf p))
                (children n))"
proof -
  have "isInvalidContent_mjs (Some c) (allowStringsOf p) (allowNumbersOf p) \<longleftrightarrow>
          \<not> allowStringsOf p"
    using assms by (auto simp: isMarkupText_def split: node.splits)
  then show ?thesis by (simp add: checkChildren_mjs_findings)
qed

theorem markup_text_flagged_iff_strings_disallowed_witness:
  "isMarkupText (JSXText (Some (1, 3)) (js ''Hello'')) \<and>
   isInvalidContent_mjs (Some (JSXText (Some (1, 3)) (js ''Hello'')))
     (allowStringsOf (policy.truncate defaultJSXOptions))
     (allowNumbersOf (policy.truncate defaultJSXOptions)) \<and>
   \<not> isInvalidContent_mjs (Some (JSXText (Some (1, 3)) (js ''Hello'')))
     (allowStringsOf \<lparr>allowStrings = Some True, allowNumbers = None, checkProps = None\<rparr>)
     (allowNumbersOf \<lparr>allowStrings = Some True, allowNumbers = None, checkProps = None\<rparr>)"
proof -
  have m: "isMarkupText (JSXText (Some (1, 3)) (js ''Hello''))"
    by (simp add: isMarkupText_def trim_def isWhiteSpace_def)
  from markup_text_flagged_iff_strings_disallowed
         [OF m, of "policy.truncate defaultJSXOptions", THEN conjunct1]
    markup_text_flagged_iff_strings_disallowed
         [OF m, of "\<lparr>allowStrings = Some True, allowNumbers = None, checkProps = None\<rparr>",
          THEN conjunct1]
    m
  show ?thesis by (simp add: policy_defs defaultJSXOptions_def policy.defs)
qed

subsection \<open>The attribute check on a button\<close>

text \<open>
  Claim C5, evaluated at \<open><button title="Click me">{t('label')}</button>\<close> under the policy
  the checker resolves for a button, whose \<open>checkProps\<close> holds \<open>title\<close> and which leaves
  \<open>allowStrings\<close> at false. The checker of \<open>jsx-hardcoded-checker.mjs\<close> yields no finding
  at all, since \<open>isInvalidContent\<close> looks for the type \<open>Literal\<close> and the value of the
  attribute is a \<open>StringLiteral\<close>. The checker of the TypeScript sources, which asks for a
  \<open>value\<close> field, yields the one finding at the position of the value, and none for the
  child.
\<close>

theorem button_title_missed_by_mjs_checker:
  "getOptionsForNode_mjs defaultJSXOptions buttonElement =
     Some (domPolicy [js ''title'', js ''aria-label'']) \<and>
   fst (checkProps_mjs plainHost Map.empty buttonElement
          (domPolicy [js ''title'', js ''aria-label'']) (js ''src/App.tsx'')) = [] \<and>
   fst (checkChildren_mjs plainHost Map.empty buttonElement
          (domPolicy [js ''title'', js ''aria-label'']) (js ''src/App.tsx'')) = [] \<and>
   map (\<lambda>e. (line e, column e, value' e))
     (checkProps_ts buttonElement (domPolicy [js ''title'', js ''aria-label''])) =
     [(1, 14, js ''Click me'')] \<and>
   checkChildren_ts buttonElement (domPolicy [js ''title'', js ''aria-label'']) = []"
  by (simp add: buttonElement_def getOptionsForNode_mjs_def defaultJSXOptions_def
        checkProps_mjs_def checkChildren_mjs_def checkProps_ts_def checkChildren_ts_def
        policy_defs propCodeError_def lineOf_def columnOf_def orElse_def toLowerCase_def
        trim_def isWhiteSpace_def)

section \<open>Properties of the TypeScript variants\<close>

lemma exampleHost_fields:
  "chalk exampleHost = (\<lambda>_ s. s)"
  "codeFrameColumns exampleHost = (\<lambda>_ _ _ _ _. None)"
  "readFileSync exampleHost (js ''src/App.tsx'') = Some (js ''<p>Hello</p>'')"
  by (simp_all add: exampleHost_def)

lemmas ts_defs = checkFile_ts_def getOptionsForNode_ts_def checkChildren_ts_def
  checkProps_ts_def childCodeError_def policy_defs defaultJSXOptions_def policy.defs
  toLowerCase_def trim_def isWhiteSpace_def lineOf_def columnOf_def

lemma checkFile_ts_broken:
  "checkFile_ts exampleHost defaultJSXOptions (js ''src/Broken.tsx'') =
     Some (Inl (js ''Unexpected token''))"
  by (simp add: checkFile_ts_def exampleHost_def)

lemma checkFile_ts_app:
  "checkFile_ts exampleHost defaultJSXOptions (js ''src/App.tsx'') =
     Some (Inr [childCodeError (JSXText (Some (1, 3)) (js ''Hello''))])"
  by (simp add: ts_defs exampleHost_def helloElement_def)

text \<open>
  Claim C7, evaluated on the TypeScript checker at the files \<open>src/Broken.tsx\<close>, which
  fails to parse, and \<open>src/App.tsx\<close>, which holds one hardcoded text. \<open>checkJSXHardcode\<close>
  logs the warning and returns at the broken file: \<open>src/App.tsx\<close> is never checked, no
  finding is recorded and no report is printed. Run on \<open>src/App.tsx\<close> alone it records
  the finding.
\<close>

theorem parse_failure_ends_typescript_run:
  "checkFile_ts exampleHost defaultJSXOptions (js ''src/Broken.tsx'') =
     Some (Inl (js ''Unexpected token'')) \<and>
   checkJSXHardcode exampleHost defaultJSXOptions newReporter
     [js ''src/Broken.tsx'', js ''src/App.tsx''] =
     (Returned_early, [],
      newReporter\<lparr>console := [parseWarning @ js ''src/Broken.tsx: Unexpected token'']\<rparr>) \<and>
   map value' (fst (snd (checkJSXHardcode exampleHost defaultJSXOptions newReporter
     [js ''src/App.tsx'']))) = [js ''Hello'']"
  using checkFile_ts_broken checkFile_ts_app exampleHost_fields
  by (simp add: checkJSXHardcode_def newReporter_def
        childCodeError_def addCodeError_def printReport_def
        formatError_ts_def generateCodeSnippet_ts_def getFileLines_ts_def mapSet_def)

text \<open>
  Whenever a file fails to parse, the loop of the TypeScript checker returns at it,
  whatever files follow.
\<close>

lemma parse_failure_stops_typescript_loop:
  assumes "isDirectory h f = Some False" and "readFileSync h f = Some code"
    and "parse h code = Inl msg"
  shows "checkFiles_ts h opts (allErrors, r) (f # after) =
           (Returned_early, allErrors,
            r\<lparr>console := console r @ [chalk h Yellow (parseWarning @ f @ js '': '' @ msg)]\<rparr>)"
  using assms by (simp add: checkFile_ts_def)

lemma errorReportLines_header:
  "errorReportLines h r =
     [chalk h RedBold (totalPrefix @ toString (length (fileErrors r)) @ totalSuffix)]"
  by (simp add: errorReportLines_def objectEntriesOfMap_def)

text \<open>
  Claim C9, evaluated on the later TypeScript reporter after two findings of the file
  \<open>src/App.tsx\<close> were added: the header of the report states 1, the number of files, and
  the report ends there, without a sub-report and without either finding.
\<close>

theorem typescript_report_counts_files:
  "map value' (codeErrors twoErrors) = [js ''Hello'', js ''World''] \<and>
   map fst (fileErrors twoErrors) = [js ''src/App.tsx''] \<and>
   errorReportLines exampleHost twoErrors = [totalPrefix @ js ''1'' @ totalSuffix] \<and>
   generateErrorReport exampleHost twoErrors = totalPrefix @ js ''1'' @ totalSuffix"
  using exampleHost_fields
  by (simp add: twoErrors_def addCodeError_def formatError_ts_def generateCodeSnippet_ts_def
        getFileLines_ts_def mapSet_def newReporter_def childCodeError_def
        errorReportLines_header generateErrorReport_def toString.simps)

section \<open>The same properties on the sources that keep them\<close>

text \<open>
  \<open>checkFile\<close> of \<open>jsx-hardcoded-checker.mjs\<close> catches the parse error itself: the file
  gives the warning and no finding, the loop goes on, and the diagnostics and the verdict
  of the run are those of the run without the file.
\<close>

lemma checkFile_mjs_parse_failure:
  assumes "isDirectory h f = Some False" and "readFileSync h f = Some code"
    and "parse h code = Inl msg"
  shows "checkFile_mjs h opts cache f =
           Some ([], cache, [chalk h Yellow (parseWarning @ f @ js '': '' @ msg)])"
  using assms by (simp add: checkFile_mjs_def)

lemma checkFiles_mjs_log:
  "withoutLog (checkFiles_mjs h opts (a, c, out) fs) =
   withoutLog (checkFiles_mjs h opts (a, c, out') fs)"
proof (induction fs arbitrary: a c out out')
  case Nil
  then show ?case by (simp add: withoutLog_def)
next
  case (Cons f fs)
  show ?case
  proof (cases "checkFile_mjs h opts c f")
    case None
    then show ?thesis by (simp add: withoutLog_def)
  next
    case (Some res)
    obtain es c' ls where "res = (es, c', ls)" by (cases res)
    with Some Cons.IH [of "a @ es" c' "out @ ls" "out' @ ls"] show ?thesis by simp
  qed
qed

lemma checkFiles_mjs_skip:
  assumes "isDirectory h f = Some False" and "readFileSync h f = Some code"
    and "parse h code = Inl msg"
  shows "withoutLog (checkFiles_mjs h opts (a, c, out) (before @ f # after)) =
         withoutLog (checkFiles_mjs h opts (a, c, out) (before @ after))"
proof (induction before arbitrary: a c out)
  case Nil
  show ?case
    using checkFile_mjs_parse_failure [OF assms, of opts c]
      checkFiles_mjs_log [of h opts a c _ after out]
    by simp
next
  case (Cons b bs)
  show ?case
  proof (cases "checkFile_mjs h opts c b")
    case None
    then show ?thesis by (simp add: withoutLog_def)
  next
    case (Some res)
    obtain es c' ls where "res = (es, c', ls)" by (cases res)
    with Some Cons.IH [of "a @ es" c' "out @ ls"] show ?thesis by simp
  qed
qed

lemma checkJSXHardcoding_withoutLog:
  "diagnostics (checkJSXHardcoding h opts cache files) =
     fst (snd (withoutLog (checkFiles_mjs h opts ([], cache, []) files))) \<and>
   verdict (checkJSXHardcoding h opts cache files) =
     (\<not> fst (withoutLog (checkFiles_mjs h opts ([], cache, []) files)) \<and>
      fst (snd (withoutLog (checkFiles_mjs h opts ([], cache, []) files))) = [])"
  by (cases "checkFiles_mjs h opts ([], cache, []) files")
     (simp add: checkJSXHardcoding_def withoutLog_def)

lemma parse_failure_skipped_by_mjs_run:
  assumes "isDirectory h f = Some False" and "readFileSync h f = Some code"
    and "parse h code = Inl msg"
  shows "diagnostics (checkJSXHardcoding h opts cache (before @ f # after)) =
           diagnostics (checkJSXHardcoding h opts cache (before @ after)) \<and>
         verdict (checkJSXHardcoding h opts cache (before @ f # after)) =
           verdict (checkJSXHardcoding h opts cache (before @ after))"
  using checkFiles_mjs_skip [OF assms, of opts "[]" cache "[]" before after]
  by (simp add: checkJSXHardcoding_withoutLog)


section \<open>Failures while a finding is formatted\<close>

text \<open>
  Findings are formatted by \<open>formatError\<close> of \<open>enhanced-error-reporter.mjs\<close> and by
  \<open>formatError\<close> of the later TypeScript reporter, which \<open>addCodeError\<close> calls. Both
  are total: the reading of the file and, in the TypeScript reporter, the call of
  \<open>codeFrameColumns\<close> stand inside a \<open>try\<close>, and each \<open>catch\<close> is a branch that goes
  on with a value.
\<close>

lemma generateCodeSnippet_ts_placeholder:
  assumes "codeFrameColumns h (fst (getFileLines_ts h r path)) ln col 2 None = None"
  shows "fst (generateCodeSnippet_ts h r path ln col) = chalk h Red (noSnippetText @ path)"
  using assms
  by (cases "getFileLines_ts h r path") (simp add: generateCodeSnippet_ts_def)

lemma formatError_unreadable:
  assumes "cache path = None" and "readFileSync h path = None"
  shows "context' (fst (formatError h cache e path)) = [] \<and>
         codeSnippet (fst (formatError h cache e path)) = []"
  using assms
  by (cases e)
     (simp add: formatError_eq createCodeContext_def getFileLines_def generateCodeSnippet_def
        finding.defs codeError.defs diagnostic.defs)

text \<open>
  Claim C8 as stated fails: for a file that cannot be read, \<open>formatError\<close> of
  \<open>enhanced-error-reporter.mjs\<close> gives the diagnostic an empty context and the empty
  string as its snippet, and the sub-report of the diagnostic is its message, its
  suggestion and an empty line. No placeholder text stands in the rendered diagnostic;
  the reporter has none.
\<close>

theorem unreadable_file_renders_empty_snippet:
  "readFileSync plainHost (js ''src/App.tsx'') = None \<and>
   context' (fst (formatError plainHost Map.empty
       (childErrorInfo (JSXText (Some (1, 3)) (js ''Hello''))) (js ''src/App.tsx''))) = [] \<and>
   codeSnippet (fst (formatError plainHost Map.empty
       (childErrorInfo (JSXText (Some (1, 3)) (js ''Hello''))) (js ''src/App.tsx''))) = [] \<and>
   errorLines plainHost 1 0 (fst (formatError plainHost Map.empty
       (childErrorInfo (JSXText (Some (1, 3)) (js ''Hello''))) (js ''src/App.tsx''))) =
     [[10] @ js ''Error 1: '' @ jsxTextMessage,
      suggestionPrefix @ js ''{t('' @ [39] @ js ''componentName.text'' @ [39] @ js '')}'' @
        replaceText,
      []]"
  by (simp add: plainHost_def errorLines_def formatError_eq createCodeContext_def
        getFileLines_def generateCodeSnippet_def childErrorInfo_def
        finding.defs codeError.defs diagnostic.defs toString.simps join.simps)

text \<open>
  Claim C8, amended. Formatting a finding always returns a diagnostic: no exception
  leaves it and nothing ends the process. For a file that cannot be read,
  \<open>formatError\<close> of \<open>enhanced-error-reporter.mjs\<close> returns the finding with its path, an
  empty context and an empty snippet, and caches the file as having no lines; \<open>formatError\<close>
  of the later TypeScript reporter writes a warning, caches the file as the empty text and
  frames the empty text. Whenever \<open>codeFrameColumns\<close> throws, the TypeScript reporter
  puts its placeholder text, which names the file, in the place of the snippet, and keeps
  what reading the file did to the cache and the console.
\<close>

theorem formatting_failure_returns_diagnostic:
  "(cache path = None \<and> readFileSync h path = None \<longrightarrow>
      finding.truncate (fst (formatError h cache error path)) = error \<and>
      filePath (fst (formatError h cache error path)) = path \<and>
      context' (fst (formatError h cache error path)) = [] \<and>
      codeSnippet (fst (formatError h cache error path)) = [] \<and>
      snd (formatError h cache error path) = cache(path \<mapsto> [])) \<and>
   (sourceCache r path = None \<and> readFileSync h path = None \<longrightarrow>
      formatError_ts h r ce path =
        (ce\<lparr>codeSnippet :=
              (case codeFrameColumns h [] (line ce) (column ce) 2 None of
                 Some frame \<Rightarrow> frame
               | None \<Rightarrow> chalk h Red (noSnippetText @ path))\<rparr>,
         r\<lparr>sourceCache := (sourceCache r)(path \<mapsto> []),
           console := console r @ [chalk h Yellow (unreadableWarning @ path)]\<rparr>)) \<and>
   (codeFrameColumns h (fst (getFileLines_ts h r path)) (line ce) (column ce) 2 None = None \<longrightarrow>
      formatError_ts h r ce path =
        (ce\<lparr>codeSnippet := chalk h Red (noSnippetText @ path)\<rparr>,
         snd (getFileLines_ts h r path)))"
proof (intro conjI impI)
  assume a: "cache path = None \<and> readFileSync h path = None"
  then show "finding.truncate (fst (formatError h cache error path)) = error"
    by (simp add: formatError_truncate)
  from a show "filePath (fst (formatError h cache error path)) = path"
    by (cases error)
       (simp add: formatError_eq createCodeContext_def getFileLines_def
          finding.defs codeError.defs diagnostic.defs)
  from a show "context' (fst (formatError h cache error path)) = []"
    by (simp add: formatError_unreadable)
  from a show "codeSnippet (fst (formatError h cache error path)) = []"
    by (simp add: formatError_unreadable)
  from a show "snd (formatError h cache error path) = cache(path \<mapsto> [])"
    by (simp add: formatError_def createCodeContext_def getFileLines_def)
next
  assume "sourceCache r path = None \<and> readFileSync h path = None"
  then show "formatError_ts h r ce path =
        (ce\<lparr>codeSnippet :=
              (case codeFrameColumns h [] (line ce) (column ce) 2 None of
                 Some frame \<Rightarrow> frame
               | None \<Rightarrow> chalk h Red (noSnippetText @ path))\<rparr>,
         r\<lparr>sourceCache := (sourceCache r)(path \<mapsto> []),
           console := console r @ [chalk h Yellow (unreadableWarning @ path)]\<rparr>)"
    by (simp add: formatError_ts_def generateCodeSnippet_ts_def getFileLines_ts_def
          split: option.splits)
next
  assume "codeFrameColumns h (fst (getFileLines_ts h r path)) (line ce) (column ce) 2 None
            = None"
  then show "formatError_ts h r ce path =
        (ce\<lparr>codeSnippet := chalk h Red (noSnippetText @ path)\<rparr>,
         snd (getFileLines_ts h r path))"
    by (cases "getFileLines_ts h r path")
       (simp add: formatError_ts_def generateCodeSnippet_ts_def)
qed

theorem formatting_failure_returns_diagnostic_witness:
  "Map.empty (js ''src/App.tsx'') = (None :: jsstring list option) \<and>
   sourceCache newReporter (js ''src/App.tsx'') = None \<and>
   readFileSync plainHost (js ''src/App.tsx'') = None \<and>
   codeFrameColumns plainHost
     (fst (getFileLines_ts plainHost newReporter (js ''src/App.tsx''))) 1 3 2 None = None \<and>
   codeSnippet (fst (formatError plainHost Map.empty
       (childErrorInfo (JSXText (Some (1, 3)) (js ''Hello''))) (js ''src/App.tsx''))) = [] \<and>
   fst (formatError_ts plainHost newReporter
       (childCodeError (JSXText (Some (1, 3)) (js ''Hello''))) (js ''src/App.tsx'')) =
     (childCodeError (JSXText (Some (1, 3)) (js ''Hello'')))
       \<lparr>codeSnippet := noSnippetText @ js ''src/App.tsx''\<rparr> \<and>
   console (snd (formatError_ts plainHost newReporter
       (childCodeError (JSXText (Some (1, 3)) (js ''Hello''))) (js ''src/App.tsx''))) =
     [unreadableWarning @ js ''src/App.tsx'']"
  using formatting_failure_returns_diagnostic
          [of Map.empty "js ''src/App.tsx''" plainHost
              "childErrorInfo (JSXText (Some (1, 3)) (js ''Hello''))" newReporter
              "childCodeError (JSXText (Some (1, 3)) (js ''Hello''))"]
  by (simp add: plainHost_def newReporter_def childCodeError_def lineOf_def columnOf_def)

text \<open>
  \<open>createCodeFrame\<close> of the earlier TypeScript reporter is private and nothing calls it:
  \<open>addCodeError\<close> of that reporter stores the error as it is. Taken alone, it returns a
  placeholder for a file that cannot be read, and for a file with content it writes a
  message and exits with code 1 when \<open>codeFrameColumns\<close> throws.
\<close>

lemma createCodeFrame_unreadable:
  assumes "cache path = None" and "readFileSync h path = None"
  shows "fst (createCodeFrame h (cache, out) path ln col k msg) =
           Returned (chalk h Gray unreadableText)"
  using assms by (simp add: createCodeFrame_def getFileLines_p0_def)

lemma createCodeFrame_exits:
  assumes "cache path = None" and "readFileSync h path = Some text" and "text \<noteq> []"
    and "codeFrameColumns h text ln col k
           (case msg of Some m \<Rightarrow> if m \<noteq> [] then Some (chalk h Red m) else None
            | None \<Rightarrow> None) = None"
  shows "fst (createCodeFrame h (cache, out) path ln col k msg) = Exited 1"
  using assms by (simp add: createCodeFrame_def getFileLines_p0_def join_splitChar)

section \<open>The report of \<open>enhanced-error-reporter.mjs\<close>\<close>

text \<open>
  \<open>generateReport\<close> of \<open>enhanced-error-reporter.mjs\<close>: the header states the number of
  diagnostics, and the groups it renders, one per file, are distinct in their paths and
  hold exactly the diagnostics of their file, so every diagnostic is in the group of its
  own file once and in no other.
\<close>

lemma mjs_report_header:
  "hd (reportLines h errors) =
     chalk h RedBold (totalPrefix @ toString (length errors) @ totalSuffix)"
  by (simp add: reportLines_def)

lemma groupErrorsByFile_snoc:
  "groupErrorsByFile (errors @ [e]) =
     (if map_of (groupErrorsByFile errors) (filePath e) = None
      then groupErrorsByFile errors @ [(filePath e, [e])]
      else map (\<lambda>(k, es). if k = filePath e then (k, es @ [e]) else (k, es))
             (groupErrorsByFile errors))"
  by (simp add: groupErrorsByFile_def Let_def)

lemma upd_keys:
  "map fst (map (\<lambda>(k, es). if k = file then (k, es @ [e]) else (k, es)) g) = map fst g"
  by (induction g) auto

lemma upd_mem:
  assumes "(f, es') \<in> set (map (\<lambda>(k, es). if k = file then (k, es @ [e]) else (k, es)) g)"
  shows "\<exists>es. (f, es) \<in> set g \<and> es' = (if f = file then es @ [e] else es)"
proof -
  from assms obtain k es where m: "(k, es) \<in> set g"
    and eq: "(f, es') = (if k = file then (k, es @ [e]) else (k, es))"
    by auto
  from eq have "f = k" and "es' = (if k = file then es @ [e] else es)"
    by (simp_all split: if_splits)
  with m show ?thesis by blast
qed

lemma mjs_report_groups:
  "distinct (map fst (groupErrorsByFile errors)) \<and>
   (\<forall>f es. (f, es) \<in> set (groupErrorsByFile errors) \<longrightarrow>
       es = filter (\<lambda>e. filePath e = f) errors \<and> es \<noteq> []) \<and>
   fst ` set (groupErrorsByFile errors) = filePath ` set errors"
proof (induction errors rule: rev_induct)
  case Nil
  then show ?case by (simp add: groupErrorsByFile_def)
next
  case (snoc e errors)
  let ?g = "groupErrorsByFile errors"
  let ?file = "filePath e"
  from snoc have d: "distinct (map fst ?g)"
    and g: "\<And>f es. (f, es) \<in> set ?g \<Longrightarrow> es = filter (\<lambda>e. filePath e = f) errors \<and> es \<noteq> []"
    and k: "fst ` set ?g = filePath ` set errors"
    by blast+
  show ?case
  proof (cases "map_of ?g ?file = None")
    case True
    then have new: "?file \<notin> fst ` set ?g" by (simp add: map_of_eq_None_iff)
    with k have "?file \<notin> filePath ` set errors" by simp
    then have "\<forall>x \<in> set errors. filePath x \<noteq> ?file"
      by (metis imageI)
    then have empty: "filter (\<lambda>x. filePath x = ?file) errors = []"
      by (simp add: filter_empty_conv)
    have eq: "groupErrorsByFile (errors @ [e]) = ?g @ [(?file, [e])]"
      using True by (simp add: groupErrorsByFile_snoc)
    have 1: "distinct (map fst (groupErrorsByFile (errors @ [e])))"
      using d new by (simp add: eq)
    have 2: "es = filter (\<lambda>x. filePath x = f) (errors @ [e]) \<and> es \<noteq> []"
      if "(f, es) \<in> set (groupErrorsByFile (errors @ [e]))" for f es
    proof (cases "(f, es) \<in> set ?g")
      case True
      then have "fst (f, es) \<in> fst ` set ?g" by (rule imageI)
      then have "f \<in> fst ` set ?g" by (simp only: fst_conv)
      with new have "f \<noteq> ?file" by (metis)
      with g [OF True] show ?thesis by auto
    next
      case False
      with that have "f = ?file" "es = [e]" by (simp_all add: eq)
      with empty show ?thesis by simp
    qed
    have 3: "fst ` set (groupErrorsByFile (errors @ [e])) = filePath ` set (errors @ [e])"
      using k by (simp add: eq)
    from 1 2 3 show ?thesis by blast
  next
    case False
    then have old: "?file \<in> fst ` set ?g" by (simp add: map_of_eq_None_iff)
    have eq: "groupErrorsByFile (errors @ [e]) =
                map (\<lambda>(k, es). if k = ?file then (k, es @ [e]) else (k, es)) ?g"
      using False by (simp add: groupErrorsByFile_snoc)
    have keys: "map fst (groupErrorsByFile (errors @ [e])) = map fst ?g"
      by (simp only: eq upd_keys)
    have 1: "distinct (map fst (groupErrorsByFile (errors @ [e])))"
      using d by (simp only: keys)
    have 2: "es' = filter (\<lambda>x. filePath x = f) (errors @ [e]) \<and> es' \<noteq> []"
      if "(f, es') \<in> set (groupErrorsByFile (errors @ [e]))" for f es'
    proof -
      from that have "(f, es') \<in> set (map (\<lambda>(k, es). if k = ?file then (k, es @ [e])
                                               else (k, es)) ?g)"
        by (simp only: eq)
      from upd_mem [OF this] obtain es where m: "(f, es) \<in> set ?g"
        and e': "es' = (if f = ?file then es @ [e] else es)"
        by (elim exE conjE)
      from g [OF m] e' show ?thesis by auto
    qed
    have "set (map fst (groupErrorsByFile (errors @ [e]))) = set (map fst ?g)"
      by (simp only: keys)
    then have "fst ` set (groupErrorsByFile (errors @ [e])) = fst ` set ?g"
      by simp
    with k old have 3:
      "fst ` set (groupErrorsByFile (errors @ [e])) = filePath ` set (errors @ [e])"
      by auto
    from 1 2 3 show ?thesis by blast
  qed
qed

end
